theory Spec2Isabelle
  imports Complex_Main
begin

section \<open>Timestamp camera: the capture pipeline and the settings store\<close>

text \<open>
  The repository holds two near-duplicate versions of the application logic,
  \<^verbatim>\<open>src/unnamed/part_000\<close> (torch control, timestamp burned in at capture only) and
  \<^verbatim>\<open>src/unnamed/part_001\<close> (live timestamp overlay). Where the two differ, a definition
  takes the source file as its first argument.
\<close>

datatype source_file = Part_000 | Part_001

subsection \<open>Numbers to strings\<close>

text \<open>\<^verbatim>\<open>String(n)\<close> for a non-negative integer: its decimal digits, most significant first.\<close>

definition digit :: "nat \<Rightarrow> char" where
  "digit n = char_of (48 + n)"

fun String_nat :: "nat \<Rightarrow> string" where
  "String_nat n = (if n < 10 then [digit n] else String_nat (n div 10) @ [digit (n mod 10)])"

declare String_nat.simps [simp del]

text \<open>\<^verbatim>\<open>String(n)\<close> (and a template literal's \<^verbatim>\<open>${n}\<close>) for any integer.\<close>

definition String_int :: "int \<Rightarrow> string" where
  "String_int i = (if i < 0 then CHR ''-'' # String_nat (nat (- i)) else String_nat (nat i))"

text \<open>\<^verbatim>\<open>s.padStart(n, c)\<close> with a one-character pad string.\<close>

definition padStart :: "nat \<Rightarrow> char \<Rightarrow> string \<Rightarrow> string" where
  "padStart n c s = replicate (n - length s) c @ s"

subsection \<open>Dates\<close>

text \<open>
  A \<^verbatim>\<open>Date\<close> is either invalid (its time value is NaN) or has the local-time fields
  its getters return; \<^verbatim>\<open>getMonth\<close> counts from 0.
\<close>

record date_fields =
  getFullYear :: int
  getMonth :: nat
  getDate :: nat
  getHours :: nat
  getMinutes :: nat
  getSeconds :: nat

datatype js_date = InvalidDate | ValidDate date_fields

text \<open>The ranges the getters of a valid \<^verbatim>\<open>Date\<close> stay in.\<close>

definition date_ok :: "date_fields \<Rightarrow> bool" where
  "date_ok d \<longleftrightarrow>
     getMonth d < 12 \<and> 1 \<le> getDate d \<and> getDate d \<le> 31 \<and>
     getHours d < 24 \<and> getMinutes d < 60 \<and> getSeconds d < 60"

text \<open>\<^verbatim>\<open>formatDateTime\<close>: part_000 lines 282-291, part_001 lines 222-232.\<close>

fun formatDateTime :: "source_file \<Rightarrow> js_date \<Rightarrow> string" where
  "formatDateTime f InvalidDate = ''''"
| "formatDateTime Part_000 (ValidDate d) =
     (let day = padStart 2 CHR ''0'' (String_nat (getDate d));
          month = padStart 2 CHR ''0'' (String_nat (getMonth d + 1));
          year = getFullYear d;
          hours = padStart 2 CHR ''0'' (String_nat (getHours d));
          minutes = padStart 2 CHR ''0'' (String_nat (getMinutes d))
      in day @ ''/'' @ month @ ''/'' @ String_int year @ '' '' @ hours @ '':'' @ minutes)"
| "formatDateTime Part_001 (ValidDate d) =
     (let year = getFullYear d;
          month = padStart 2 CHR ''0'' (String_nat (getMonth d + 1));
          day = padStart 2 CHR ''0'' (String_nat (getDate d));
          hours = padStart 2 CHR ''0'' (String_nat (getHours d));
          minutes = padStart 2 CHR ''0'' (String_nat (getMinutes d));
          seconds = padStart 2 CHR ''0'' (String_nat (getSeconds d))
      in String_int year @ ''-'' @ month @ ''-'' @ day @ '' '' @ hours @ '':'' @ minutes
           @ '':'' @ seconds)"

text \<open>\<^verbatim>\<open>toLocalISOString\<close>: part_000 lines 293-300, part_001 lines 234-241.\<close>

definition toLocalISOString :: "date_fields \<Rightarrow> string" where
  "toLocalISOString d =
     (let year = getFullYear d;
          month = padStart 2 CHR ''0'' (String_nat (getMonth d + 1));
          day = padStart 2 CHR ''0'' (String_nat (getDate d));
          hours = padStart 2 CHR ''0'' (String_nat (getHours d));
          minutes = padStart 2 CHR ''0'' (String_nat (getMinutes d))
      in String_int year @ ''-'' @ month @ ''-'' @ day @ ''T'' @ hours @ '':'' @ minutes)"

subsection \<open>JavaScript values\<close>

text \<open>
  The values \<^verbatim>\<open>JSON.parse\<close> yields, which are also the values the variable
  \<^verbatim>\<open>customDateTime\<close> can come to hold. An object lists its members in document order;
  where a name occurs twice the last occurrence counts.
\<close>

datatype json =
    JNull
  | JBool bool
  | JNum rat
  | JStr string
  | JArr "json list"
  | JObj "(string \<times> json) list"

datatype exn = SecurityError | QuotaExceededError | SyntaxError | TypeError

text \<open>
  \<^verbatim>\<open>data.name\<close>: reading a member of \<^verbatim>\<open>null\<close> throws; a primitive or an array has none
  of the settings names, so the read gives \<^verbatim>\<open>undefined\<close> (here \<open>None\<close>).
\<close>

fun getProp :: "json \<Rightarrow> string \<Rightarrow> exn + json option" where
  "getProp JNull name = Inl TypeError"
| "getProp (JObj members) name = Inr (map_of (rev members) name)"
| "getProp v name = Inr None"

text \<open>Truthiness of a value read from a member (\<open>None\<close> is \<^verbatim>\<open>undefined\<close>).\<close>

fun truthy :: "json option \<Rightarrow> bool" where
  "truthy None = False"
| "truthy (Some JNull) = False"
| "truthy (Some (JBool b)) = b"
| "truthy (Some (JNum n)) = (n \<noteq> 0)"
| "truthy (Some (JStr s)) = (s \<noteq> [])"
| "truthy (Some (JArr xs)) = True"
| "truthy (Some (JObj ms)) = True"

subsection \<open>The canvas\<close>

text \<open>
  The current transformation matrix of a 2D context, as \<^verbatim>\<open>matrix(a, b, c, d, e, f)\<close>: the
  point \<open>(x, y)\<close> of user space is painted at \<open>(a x + c y + e, b x + d y + f)\<close>. The only
  rotation the code asks for is \<^verbatim>\<open>Math.PI / 2\<close>, taken here as the exact quarter turn
  (cosine 0, sine 1), so integer entries suffice.
\<close>

record matrix =
  m_a :: int
  m_b :: int
  m_c :: int
  m_d :: int
  m_e :: int
  m_f :: int

definition identity :: matrix where
  "identity = \<lparr>m_a = 1, m_b = 0, m_c = 0, m_d = 1, m_e = 0, m_f = 0\<rparr>"

text \<open>The product \<open>M N\<close>: first \<open>N\<close>, then \<open>M\<close>.\<close>

definition mult :: "matrix \<Rightarrow> matrix \<Rightarrow> matrix" where
  "mult M N =
     \<lparr>m_a = m_a M * m_a N + m_c M * m_b N,
      m_b = m_b M * m_a N + m_d M * m_b N,
      m_c = m_a M * m_c N + m_c M * m_d N,
      m_d = m_b M * m_c N + m_d M * m_d N,
      m_e = m_a M * m_e N + m_c M * m_f N + m_e M,
      m_f = m_b M * m_e N + m_d M * m_f N + m_f M\<rparr>"



text \<open>The drawing state that \<^verbatim>\<open>save\<close> pushes and \<^verbatim>\<open>restore\<close> pops.\<close>

record drawing_state =
  transform :: matrix
  font_px :: int
  fillStyle :: string
  shadowColor :: string
  shadowBlur :: int
  shadowOffsetX :: int
  shadowOffsetY :: int
  textAlign :: string
  textBaseline :: string

text \<open>The defaults of a fresh context; the default font is \<^verbatim>\<open>10px sans-serif\<close>.\<close>

definition default_state :: drawing_state where
  "default_state =
     \<lparr>transform = identity, font_px = 10, fillStyle = ''#000000'',
      shadowColor = ''rgba(0, 0, 0, 0)'', shadowBlur = 0, shadowOffsetX = 0,
      shadowOffsetY = 0, textAlign = ''start'', textBaseline = ''alphabetic''\<rparr>"

text \<open>
  What has been painted: the video frame into a destination rectangle, or a line of text
  at an anchor point, each with the drawing state in force.
\<close>

datatype draw_op =
    DrawImage drawing_state int int int int
  | FillText drawing_state string int int

record canvas =
  canvas_width :: nat
  canvas_height :: nat
  painted :: "draw_op list"
  ctx :: drawing_state
  ctx_stack :: "drawing_state list"

text \<open>Assigning \<^verbatim>\<open>width\<close> or \<^verbatim>\<open>height\<close> clears the bitmap and resets the context.\<close>

definition set_width :: "nat \<Rightarrow> canvas \<Rightarrow> canvas" where
  "set_width w c = c\<lparr>canvas_width := w, painted := [], ctx := default_state, ctx_stack := []\<rparr>"

definition set_height :: "nat \<Rightarrow> canvas \<Rightarrow> canvas" where
  "set_height h c = c\<lparr>canvas_height := h, painted := [], ctx := default_state, ctx_stack := []\<rparr>"

definition save :: "canvas \<Rightarrow> canvas" where
  "save c = c\<lparr>ctx_stack := ctx c # ctx_stack c\<rparr>"

definition restore :: "canvas \<Rightarrow> canvas" where
  "restore c = (case ctx_stack c of [] \<Rightarrow> c | st # rest \<Rightarrow> c\<lparr>ctx := st, ctx_stack := rest\<rparr>)"

definition transform_by :: "matrix \<Rightarrow> canvas \<Rightarrow> canvas" where
  "transform_by N c = c\<lparr>ctx := (ctx c)\<lparr>transform := mult (transform (ctx c)) N\<rparr>\<rparr>"

definition translate :: "int \<Rightarrow> int \<Rightarrow> canvas \<Rightarrow> canvas" where
  "translate tx ty = transform_by \<lparr>m_a = 1, m_b = 0, m_c = 0, m_d = 1, m_e = tx, m_f = ty\<rparr>"

definition scale :: "int \<Rightarrow> int \<Rightarrow> canvas \<Rightarrow> canvas" where
  "scale sx sy = transform_by \<lparr>m_a = sx, m_b = 0, m_c = 0, m_d = sy, m_e = 0, m_f = 0\<rparr>"

text \<open>\<^verbatim>\<open>ctx.rotate(Math.PI / 2)\<close>.\<close>

definition rotate_half_pi :: "canvas \<Rightarrow> canvas" where
  "rotate_half_pi = transform_by \<lparr>m_a = 0, m_b = 1, m_c = - 1, m_d = 0, m_e = 0, m_f = 0\<rparr>"

definition drawImage :: "int \<Rightarrow> int \<Rightarrow> int \<Rightarrow> int \<Rightarrow> canvas \<Rightarrow> canvas" where
  "drawImage dx dy dw dh c = c\<lparr>painted := painted c @ [DrawImage (ctx c) dx dy dw dh]\<rparr>"

definition fillText :: "string \<Rightarrow> int \<Rightarrow> int \<Rightarrow> canvas \<Rightarrow> canvas" where
  "fillText text x y c = c\<lparr>painted := painted c @ [FillText (ctx c) text x y]\<rparr>"

text \<open>\<^verbatim>\<open>Math.round\<close>: the nearest integer, a half going up.\<close>

definition Math_round :: "rat \<Rightarrow> int" where
  "Math_round x = \<lfloor>x + 1 / 2\<rfloor>"

text \<open>
  The file \<^verbatim>\<open>toBlob\<close> hands to its callback: the encoding asked for, and the bitmap encoded,
  given by its size and what was painted on it.
\<close>

record blob =
  blob_type :: string
  blob_quality :: rat
  blob_width :: nat
  blob_height :: nat
  blob_painted :: "draw_op list"

text \<open>
  \<^verbatim>\<open>canvas.toBlob(callback, type, quality)\<close>: the callback receives \<^verbatim>\<open>null\<close> when the bitmap
  has no pixels or the encoder produces nothing (\<open>enc\<close> is the encoder's answer).
\<close>

definition toBlob :: "bool \<Rightarrow> string \<Rightarrow> rat \<Rightarrow> canvas \<Rightarrow> blob option" where
  "toBlob enc type quality c =
     (if canvas_width c = 0 \<or> canvas_height c = 0 \<or> \<not> enc then None
      else Some \<lparr>blob_type = type, blob_quality = quality, blob_width = canvas_width c,
                 blob_height = canvas_height c, blob_painted = painted c\<rparr>)"

subsection \<open>The browser and the application state\<close>

datatype facing = Environment | User

record stream =
  stopped :: bool
  torch :: bool

datatype getUserMedia_result = Resolved stream | Rejected string

datatype share_result = Shared | ShareRejected string

text \<open>
  What the browser answers during one call of an application function. \<open>Date_parse\<close> is
  the date a string denotes (\<^verbatim>\<open>new Date(string)\<close>, which never throws), \<open>Date_of_number\<close>
  the date of a time value, \<open>Number_toString\<close> the decimal text of a number, and
  \<open>Date_now\<close> is \<^verbatim>\<open>new Date()\<close>, which is always a valid date; \<open>mediaDevices\<close> is \<open>None\<close>
  when \<^verbatim>\<open>navigator.mediaDevices.getUserMedia\<close> does not exist, and \<open>navigator_share\<close> is
  \<open>None\<close> when \<^verbatim>\<open>navigator.share\<close> does not; \<open>input_value\<close> is the string an input
  element shows after a string has been assigned to it.
\<close>

record browser =
  Date_parse :: "string \<Rightarrow> js_date"
  Date_of_number :: "rat \<Rightarrow> js_date"
  Number_toString :: "rat \<Rightarrow> string"
  Date_now :: date_fields
  videoWidth :: nat
  videoHeight :: nat
  innerWidth :: int
  innerHeight :: int
  encodes :: bool
  createObjectURL :: string
  mediaDevices :: "getUserMedia_result option"
  navigator_share :: "share_result option"
  storage_denied :: bool
  quota_exceeded :: bool
  JSON_stringify :: "json \<Rightarrow> string"
  JSON_parse :: "string \<Rightarrow> json option"
  input_value :: "string \<Rightarrow> string"

text \<open>The handlers a button of the error panel can carry.\<close>

datatype handler = StartCamera

record button =
  button_text :: string
  onclick :: "handler list"

text \<open>The error panel \<^verbatim>\<open>#cameraOverlay\<close>: a heading, a paragraph and, optionally, a button.\<close>

record overlay =
  overlay_title :: string
  overlay_message :: string
  cameraRetryBtn :: "button option"

text \<open>
  The module's variables (part_000 lines 30-37, part_001 lines 29-35), the properties of
  the page's elements that the code reads or writes, local storage and the error console.
\<close>

record app =
  facingMode :: facing
  currentStream :: "stream option"
  timestampEnabled :: bool
  timestampMode :: string
  customDateTime :: json
  capturedBlob :: "blob option"
  flashOn :: bool
  torchSupported :: bool
  timestampToggle_checked :: bool
  timeMode_value :: string
  customTimeRow_hidden :: bool
  customTimeInput_value :: string
  captureCanvas :: canvas
  previewImg_src :: string
  previewOverlay_hidden :: bool
  cameraOverlay :: "overlay option"
  localStorage :: "string \<rightharpoonup> string"
  console :: "(string \<times> string) list"

subsection \<open>Timestamp text\<close>

text \<open>
  The conversion of a value to a string. A parsed value is never callable, so an object
  that has a member named \<^verbatim>\<open>toString\<close> has no usable \<^verbatim>\<open>toString\<close>, and its inherited
  \<^verbatim>\<open>valueOf\<close> (or a member of that name) gives no primitive: the conversion throws. Any
  other object is \<^verbatim>\<open>[object Object]\<close>. An array is the texts of its elements joined by
  commas, \<^verbatim>\<open>null\<close> counting as the empty text.
\<close>

fun ToString :: "browser \<Rightarrow> json \<Rightarrow> exn + string"
  and join :: "browser \<Rightarrow> json list \<Rightarrow> exn + string" where
  "ToString b JNull = Inr ''null''"
| "ToString b (JBool v) = Inr (if v then ''true'' else ''false'')"
| "ToString b (JNum n) = Inr (Number_toString b n)"
| "ToString b (JStr t) = Inr t"
| "ToString b (JArr xs) = join b xs"
| "ToString b (JObj members) =
     (if ''toString'' \<in> set (map fst members) then Inl TypeError else Inr ''[object Object]'')"
| "join b [] = Inr []"
| "join b (x # xs) =
     (case (if x = JNull then Inr [] else ToString b x) of
        Inl e \<Rightarrow> Inl e
      | Inr t \<Rightarrow>
          (if xs = [] then Inr t
           else (case join b xs of Inl e \<Rightarrow> Inl e | Inr ts \<Rightarrow> Inr (t @ '','' @ ts))))"

text \<open>
  \<^verbatim>\<open>new Date(v)\<close>: a string is parsed; \<^verbatim>\<open>null\<close>, a boolean and a number are time values;
  an array or an object is first made a primitive, which is its string or a \<^verbatim>\<open>TypeError\<close>.
\<close>

fun Date_new :: "browser \<Rightarrow> json \<Rightarrow> exn + js_date" where
  "Date_new b JNull = Inr (Date_of_number b 0)"
| "Date_new b (JBool v) = Inr (Date_of_number b (if v then 1 else 0))"
| "Date_new b (JNum n) = Inr (Date_of_number b n)"
| "Date_new b (JStr t) = Inr (Date_parse b t)"
| "Date_new b v = (case ToString b v of Inl e \<Rightarrow> Inl e | Inr t \<Rightarrow> Inr (Date_parse b t))"

text \<open>
  \<^verbatim>\<open>getTimestampText\<close>: part_000 lines 271-280, part_001 lines 211-220. It throws what
  \<^verbatim>\<open>new Date(customDateTime)\<close> throws.
\<close>

definition getTimestampText :: "source_file \<Rightarrow> browser \<Rightarrow> app \<Rightarrow> exn + string" where
  "getTimestampText f b s =
     (if \<not> timestampEnabled s then Inr []
      else if timestampMode s = ''custom'' \<and> truthy (Some (customDateTime s)) then
        (case Date_new b (customDateTime s) of
           Inl e \<Rightarrow> Inl e
         | Inr d \<Rightarrow> Inr (formatDateTime f d))
      else Inr (formatDateTime f (ValidDate (Date_now b))))"

subsection \<open>Capture\<close>

text \<open>
  The constants of the timestamp block, which are all that distinguishes the two versions
  of \<^verbatim>\<open>capturePhoto\<close> (part_000 lines 340-350, part_001 lines 295-305): the font size as a
  fraction of the canvas width and its minimum, the fill colour, the shadow colour, blur
  and offset, and the margin as a fraction of the canvas width.
\<close>

record stamp_constants =
  font_ratio :: rat
  font_min :: int
  stamp_fill :: string
  stamp_shadow :: string
  stamp_blur :: int
  stamp_offset :: int
  padding_ratio :: rat

fun stamp :: "source_file \<Rightarrow> stamp_constants" where
  "stamp Part_000 =
     \<lparr>font_ratio = 42 / 1000, font_min = 20, stamp_fill = ''#ffffff'',
      stamp_shadow = ''rgba(0, 0, 0, 0.9)'', stamp_blur = 6, stamp_offset = 2,
      padding_ratio = 3 / 100\<rparr>"
| "stamp Part_001 =
     \<lparr>font_ratio = 28 / 1000, font_min = 16, stamp_fill = ''#ffa726'',
      stamp_shadow = ''rgba(0, 0, 0, 0.8)'', stamp_blur = 4, stamp_offset = 1,
      padding_ratio = 25 / 1000\<rparr>"

text \<open>
  The frame is drawn between \<^verbatim>\<open>ctx.save()\<close> and \<^verbatim>\<open>ctx.restore()\<close> (part_000 lines
  320-335, part_001 lines 274-290): rotated when the page is portrait and the frame is
  landscape, mirrored for the front camera.
\<close>

definition draw_frame :: "facing \<Rightarrow> bool \<Rightarrow> nat \<Rightarrow> nat \<Rightarrow> nat \<Rightarrow> canvas \<Rightarrow> canvas" where
  "draw_frame facing needsRotation canvasW vw vh c0 =
     (let c1 = save c0;
          c2 = (if needsRotation then rotate_half_pi (translate (int canvasW) 0 c1) else c1);
          c3 = (if facing = User then scale (- 1) 1 (translate (int vw) 0 c2) else c2)
      in restore (drawImage 0 0 (int vw) (int vh) c3))"

text \<open>
  The timestamp is written at the bottom right (part_000 lines 340-351, part_001 lines
  295-306). Of the font \<^verbatim>\<open>bold <fontSize>px 'Courier New', Courier, monospace\<close> the state
  keeps the size.
\<close>

definition draw_timestamp :: "source_file \<Rightarrow> string \<Rightarrow> nat \<Rightarrow> nat \<Rightarrow> canvas \<Rightarrow> canvas" where
  "draw_timestamp f text canvasW canvasH c4 =
     (let k = stamp f;
          fontSize = max (Math_round (of_nat canvasW * font_ratio k)) (font_min k);
          c = c4\<lparr>ctx := (ctx c4)\<lparr>font_px := fontSize, fillStyle := stamp_fill k,
                 shadowColor := stamp_shadow k, shadowBlur := stamp_blur k,
                 shadowOffsetX := stamp_offset k, shadowOffsetY := stamp_offset k,
                 textAlign := ''right'', textBaseline := ''bottom''\<rparr>\<rparr>;
          padding = Math_round (of_nat canvasW * padding_ratio k)
      in fillText text (int canvasW - padding) (int canvasH - padding) c)"

text \<open>
  The corrected size (part_000 lines 309-315, part_001 lines 261-269): whether the frame
  needs rotation, and the width and height the canvas takes.
\<close>

definition canvas_size :: "browser \<Rightarrow> bool \<times> nat \<times> nat" where
  "canvas_size b =
     (let vw = videoWidth b; vh = videoHeight b;
          isPortrait = innerHeight b > innerWidth b;
          videoIsLandscape = vw > vh;
          needsRotation = isPortrait \<and> videoIsLandscape;
          canvasW = (if needsRotation then vh else vw);
          canvasH = (if needsRotation then vw else vh)
      in (needsRotation, canvasW, canvasH))"

text \<open>
  The canvas once the frame is on it (part_000 lines 317-335, part_001 lines 271-290):
  it takes the corrected size, which clears it, and the frame is drawn.
\<close>

definition render_frame :: "browser \<Rightarrow> app \<Rightarrow> canvas" where
  "render_frame b s =
     (let (needsRotation, canvasW, canvasH) = canvas_size b;
          c0 = set_height canvasH (set_width canvasW (captureCanvas s))
      in draw_frame (facingMode s) needsRotation canvasW (videoWidth b) (videoHeight b) c0)"

text \<open>The timestamp goes on top when the text is not empty (\<^verbatim>\<open>if (text)\<close>).\<close>

definition render_text :: "source_file \<Rightarrow> browser \<Rightarrow> string \<Rightarrow> canvas \<Rightarrow> canvas" where
  "render_text f b text c4 =
     (let (needsRotation, canvasW, canvasH) = canvas_size b
      in if text \<noteq> [] then draw_timestamp f text canvasW canvasH c4 else c4)"

text \<open>
  The result of an operation that can throw: the state it returns, or the exception
  together with the state it had reached.
\<close>

definition state_after :: "(exn \<times> app) + app \<Rightarrow> app" where
  "state_after r = (case r of Inl (e, s) \<Rightarrow> s | Inr s \<Rightarrow> s)"

text \<open>
  \<^verbatim>\<open>capturePhoto\<close>: part_000 lines 303-362, part_001 lines 255-317. An exception of
  \<^verbatim>\<open>getTimestampText\<close> leaves the function after the frame has been drawn and before
  \<^verbatim>\<open>toBlob\<close> is called; nothing catches it. The callback of \<^verbatim>\<open>toBlob\<close> is run at once.
\<close>

definition capturePhoto :: "source_file \<Rightarrow> browser \<Rightarrow> app \<Rightarrow> (exn \<times> app) + app" where
  "capturePhoto f b s =
     (let vw = videoWidth b; vh = videoHeight b in
      if vw = 0 \<or> vh = 0 then Inr s
      else
        let c4 = render_frame b s;
            s1 = s\<lparr>captureCanvas := c4\<rparr>
        in case getTimestampText f b s of
             Inl e \<Rightarrow> Inl (e, s1)
           | Inr text \<Rightarrow>
               (let c5 = render_text f b text c4;
                    s2 = s1\<lparr>captureCanvas := c5\<rparr>
                in case toBlob (encodes b) ''image/jpeg'' (92 / 100) c5 of
                     None \<Rightarrow> Inr s2
                   | Some blob \<Rightarrow>
                       Inr (s2\<lparr>capturedBlob := Some blob, previewImg_src := createObjectURL b,
                              previewOverlay_hidden := False\<rparr>)))"

subsection \<open>Share\<close>

text \<open>\<^verbatim>\<open>sharePhoto\<close>: part_000 lines 390-405, part_001 lines 345-361.\<close>

definition sharePhoto :: "browser \<Rightarrow> app \<Rightarrow> app" where
  "sharePhoto b s =
     (if capturedBlob s = None \<or> navigator_share b = None then s
      else case navigator_share b of
             Some (ShareRejected name) \<Rightarrow>
               (if name \<noteq> ''AbortError'' then s\<lparr>console := console s @ [(''Share error:'', name)]\<rparr>
                else s)
           | _ \<Rightarrow> s)"

subsection \<open>Persisted settings\<close>

text \<open>Local storage: every access throws when the browser denies storage.\<close>

definition setItem :: "browser \<Rightarrow> string \<Rightarrow> string \<Rightarrow> (string \<rightharpoonup> string) \<Rightarrow> exn + (string \<rightharpoonup> string)" where
  "setItem b key v items =
     (if storage_denied b then Inl SecurityError
      else if quota_exceeded b then Inl QuotaExceededError
      else Inr (items(key \<mapsto> v)))"

definition getItem :: "browser \<Rightarrow> string \<Rightarrow> (string \<rightharpoonup> string) \<Rightarrow> exn + string option" where
  "getItem b key items = (if storage_denied b then Inl SecurityError else Inr (items key))"

text \<open>
  The body of a \<^verbatim>\<open>try\<close> block either completes with a state or throws, leaving the state
  reached so far; \<^verbatim>\<open>catch (e) { /* ignore */ }\<close> goes on from that state.
\<close>

definition catch_ignore :: "(exn \<times> app) + app \<Rightarrow> app" where
  "catch_ignore r = (case r of Inl (e, s) \<Rightarrow> s | Inr s \<Rightarrow> s)"

text \<open>\<^verbatim>\<open>saveSettings\<close>: part_000 lines 417-426, part_001 lines 373-382.\<close>

definition saveSettings_try :: "browser \<Rightarrow> app \<Rightarrow> (exn \<times> app) + app" where
  "saveSettings_try b s =
     (let data = JObj [(''timestampEnabled'', JBool (timestampEnabled s)),
                       (''timestampMode'', JStr (timestampMode s)),
                       (''customDateTime'', JStr (customTimeInput_value s))]
      in case setItem b ''tsCamera_settings'' (JSON_stringify b data) (localStorage s) of
           Inl e \<Rightarrow> Inl (e, s)
         | Inr items \<Rightarrow> Inr (s\<lparr>localStorage := items\<rparr>))"

definition saveSettings :: "browser \<Rightarrow> app \<Rightarrow> app" where
  "saveSettings b s = catch_ignore (saveSettings_try b s)"

text \<open>
  The listener of the timestamp toggle (part_000 lines 69-72, part_001 lines 69-73), run
  once the user has set the checkbox to \<open>checked\<close>. The live overlay that part_001
  refreshes is left out.
\<close>

definition timestampToggle_change :: "browser \<Rightarrow> bool \<Rightarrow> app \<Rightarrow> app" where
  "timestampToggle_change b checked s =
     (let s1 = s\<lparr>timestampToggle_checked := checked\<rparr>;
          s2 = s1\<lparr>timestampEnabled := timestampToggle_checked s1\<rparr>
      in saveSettings b s2)"

text \<open>
  The three assignments of \<^verbatim>\<open>loadSettings\<close>, each behind its check (part_000 lines
  434-446, part_001 lines 390-402); the argument is the member read from the parsed
  record, \<open>None\<close> when it is \<^verbatim>\<open>undefined\<close>. The select element \<^verbatim>\<open>timeMode\<close> is taken to
  offer both modes.
\<close>

definition load_timestampEnabled :: "json option \<Rightarrow> app \<Rightarrow> app" where
  "load_timestampEnabled member s =
     (case member of
        Some (JBool v) \<Rightarrow> s\<lparr>timestampEnabled := v, timestampToggle_checked := v\<rparr>
      | _ \<Rightarrow> s)"

definition load_timestampMode :: "json option \<Rightarrow> app \<Rightarrow> app" where
  "load_timestampMode member s =
     (if member = Some (JStr ''current'') \<or> member = Some (JStr ''custom'')
      then (case member of
              Some (JStr m) \<Rightarrow>
                s\<lparr>timestampMode := m, timeMode_value := m,
                  customTimeRow_hidden := (m \<noteq> ''custom'')\<rparr>
            | _ \<Rightarrow> s)
      else s)"

text \<open>
  Assigning to \<^verbatim>\<open>customTimeInput.value\<close> converts the value to a string first, which can
  throw; the variable has been assigned by then.
\<close>

definition load_customDateTime :: "browser \<Rightarrow> json option \<Rightarrow> app \<Rightarrow> (exn \<times> app) + app" where
  "load_customDateTime b member s =
     (if truthy member
      then (case member of
              Some v \<Rightarrow>
                (let s1 = s\<lparr>customDateTime := v\<rparr>
                 in (case ToString b v of
                       Inl e \<Rightarrow> Inl (e, s1)
                     | Inr t \<Rightarrow> Inr (s1\<lparr>customTimeInput_value := input_value b t\<rparr>)))
            | None \<Rightarrow> Inr s)
      else Inr s)"

text \<open>\<^verbatim>\<open>loadSettings\<close>: part_000 lines 428-448, part_001 lines 384-404.\<close>

definition loadSettings_try :: "browser \<Rightarrow> app \<Rightarrow> (exn \<times> app) + app" where
  "loadSettings_try b s =
     (case getItem b ''tsCamera_settings'' (localStorage s) of
        Inl e \<Rightarrow> Inl (e, s)
      | Inr None \<Rightarrow> Inr s
      | Inr (Some raw) \<Rightarrow>
          (if raw = [] then Inr s
           else
             (case JSON_parse b raw of
                None \<Rightarrow> Inl (SyntaxError, s)
              | Some data \<Rightarrow>
                  (case getProp data ''timestampEnabled'' of
                     Inl e \<Rightarrow> Inl (e, s)
                   | Inr enabled \<Rightarrow>
                       (let s1 = load_timestampEnabled enabled s
                        in (case getProp data ''timestampMode'' of
                              Inl e \<Rightarrow> Inl (e, s1)
                            | Inr mode \<Rightarrow>
                                (let s2 = load_timestampMode mode s1
                                 in (case getProp data ''customDateTime'' of
                                       Inl e \<Rightarrow> Inl (e, s2)
                                     | Inr custom \<Rightarrow> load_customDateTime b custom s2))))))))"

definition loadSettings :: "browser \<Rightarrow> app \<Rightarrow> app" where
  "loadSettings b s = catch_ignore (loadSettings_try b s)"

subsection \<open>Camera\<close>

text \<open>
  \<^verbatim>\<open>showCameraOverlay\<close> (part_000 lines 219-261, part_001 lines 159-201) replaces the
  content of the panel; the button exists when \<^verbatim>\<open>buttonText\<close> is truthy, and its click
  listener calls \<^verbatim>\<open>startCamera\<close>.
\<close>

definition showCameraOverlay :: "string \<Rightarrow> string \<Rightarrow> string option \<Rightarrow> app \<Rightarrow> app" where
  "showCameraOverlay title message buttonText s =
     s\<lparr>cameraOverlay := Some
         \<lparr>overlay_title = title, overlay_message = message,
          cameraRetryBtn =
            (case buttonText of
               None \<Rightarrow> None
             | Some t \<Rightarrow> if t \<noteq> [] then Some \<lparr>button_text = t, onclick = [StartCamera]\<rparr> else None)\<rparr>\<rparr>"

definition hideCameraOverlay :: "app \<Rightarrow> app" where
  "hideCameraOverlay s = s\<lparr>cameraOverlay := None\<rparr>"

text \<open>
  \<^verbatim>\<open>checkTorchSupport\<close> (part_000 lines 164-181); \<open>torch\<close> says that the stream's first
  video track exists and reports the torch capability.
\<close>

definition checkTorchSupport :: "app \<Rightarrow> app" where
  "checkTorchSupport s =
     (case currentStream s of
        None \<Rightarrow> s\<lparr>torchSupported := False\<rparr>
      | Some st \<Rightarrow> s\<lparr>torchSupported := torch st\<rparr>)"

text \<open>
  \<^verbatim>\<open>startCamera\<close>: part_000 lines 92-156, part_001 lines 95-152. The browser's answer to
  \<^verbatim>\<open>getUserMedia\<close> is taken at the \<^verbatim>\<open>await\<close>; a rejection is caught with its \<^verbatim>\<open>name\<close>.
\<close>

definition startCamera :: "source_file \<Rightarrow> browser \<Rightarrow> app \<Rightarrow> app" where
  "startCamera f b s =
     (let s1 = (case currentStream s of
                  None \<Rightarrow> s
                | Some st \<Rightarrow> s\<lparr>currentStream := Some (st\<lparr>stopped := True\<rparr>)\<rparr>);
          s2 = (if f = Part_000 then s1\<lparr>flashOn := False\<rparr> else s1);
          s3 = hideCameraOverlay s2
      in case mediaDevices b of
           None \<Rightarrow>
             showCameraOverlay ''Camera not available''
               ''Your browser does not support camera access. Make sure you are using HTTPS or localhost.''
               None s3
         | Some (Resolved st) \<Rightarrow>
             (let s4 = s3\<lparr>currentStream := Some st\<rparr>
              in if f = Part_000 then checkTorchSupport s4 else s4)
         | Some (Rejected name) \<Rightarrow>
             (let s4 = s3\<lparr>console := console s3 @ [(''Camera error:'', name)]\<rparr>
              in if name = ''NotAllowedError'' \<or> name = ''PermissionDeniedError'' then
                   showCameraOverlay ''Camera access denied''
                     ''Please allow camera access in your browser settings, then tap below to retry.''
                     (Some ''Grant Camera Access'') s4
                 else if name = ''NotFoundError'' \<or> name = ''DevicesNotFoundError'' then
                   showCameraOverlay ''No camera found''
                     ''No camera was detected on this device.''
                     (Some ''Try Again'') s4
                 else
                   showCameraOverlay ''Camera error''
                     ''Unable to start the camera. Tap below to try again.''
                     (Some ''Start Camera'') s4))"

text \<open>A click on \<^verbatim>\<open>#cameraRetryBtn\<close> runs the button's listeners in turn.\<close>

fun run_handler :: "source_file \<Rightarrow> browser \<Rightarrow> handler \<Rightarrow> app \<Rightarrow> app" where
  "run_handler f b StartCamera s = startCamera f b s"

definition click_cameraRetryBtn :: "source_file \<Rightarrow> browser \<Rightarrow> app \<Rightarrow> app" where
  "click_cameraRetryBtn f b s =
     (case cameraOverlay s of
        None \<Rightarrow> s
      | Some panel \<Rightarrow>
          (case cameraRetryBtn panel of
             None \<Rightarrow> s
           | Some btn \<Rightarrow> fold (run_handler f b) (onclick btn) s))"

subsection \<open>Start of the page\<close>

text \<open>
  \<^verbatim>\<open>init\<close> (part_000 lines 42-89, part_001 lines 40-92) as far as it touches the state
  modelled here: the picker is set to the current time, the settings are loaded and the
  camera is started. Showing the share button, binding the listeners, the overlay timer of
  part_001 and the registration of the service worker are left out.
\<close>

definition init :: "source_file \<Rightarrow> browser \<Rightarrow> app \<Rightarrow> app" where
  "init f b s =
     (let now = Date_now b;
          s1 = s\<lparr>customTimeInput_value := toLocalISOString now\<rparr>;
          s2 = loadSettings b s1
      in startCamera f b s2)"

subsection \<open>A first run and an example browser\<close>

text \<open>
  The state of a first run: the variables as the module initialises them, the page's
  elements as an untouched page has them (the canvas at its default size), empty storage.
\<close>

definition initial_app :: app where
  "initial_app =
     \<lparr>facingMode = Environment, currentStream = None, timestampEnabled = True,
      timestampMode = ''current'', customDateTime = JStr [], capturedBlob = None,
      flashOn = False, torchSupported = False, timestampToggle_checked = True,
      timeMode_value = ''current'', customTimeRow_hidden = True, customTimeInput_value = [],
      captureCanvas = \<lparr>canvas_width = 300, canvas_height = 150, painted = [],
                        ctx = default_state, ctx_stack = []\<rparr>,
      previewImg_src = [], previewOverlay_hidden = True, cameraOverlay = None,
      localStorage = Map.empty, console = []\<rparr>"

text \<open>
  A phone held upright (390 by 844) whose camera delivers 1920 by 1080 frames, on
  2 November 2026 at 09:05:07, its clock on universal time. It knows one custom time, the
  first second of the epoch and one settings document, prints whole numbers, keeps in its
  picker a text of sixteen characters and clears any other, refuses the camera and has its
  share sheet dismissed.
\<close>

definition example_settings :: json where
  "example_settings =
     JObj [(''timestampEnabled'', JBool False), (''timestampMode'', JStr ''current''),
           (''customDateTime'', JStr ''2026-11-02T09:05'')]"

definition example_browser :: browser where
  "example_browser =
     \<lparr>Date_parse = (\<lambda>t. if t = ''2024-02-01T09:05''
                          then ValidDate \<lparr>getFullYear = 2024, getMonth = 1, getDate = 1,
                                 getHours = 9, getMinutes = 5, getSeconds = 0\<rparr>
                          else InvalidDate),
      Date_of_number = (\<lambda>n. if 0 \<le> n \<and> n < 1000
                              then ValidDate \<lparr>getFullYear = 1970, getMonth = 0, getDate = 1,
                                     getHours = 0, getMinutes = 0, getSeconds = 0\<rparr>
                              else InvalidDate),
      Number_toString = (\<lambda>n. String_int \<lfloor>n\<rfloor>),
      Date_now = \<lparr>getFullYear = 2026, getMonth = 10, getDate = 2, getHours = 9,
                   getMinutes = 5, getSeconds = 7\<rparr>,
      videoWidth = 1920, videoHeight = 1080, innerWidth = 390, innerHeight = 844,
      encodes = True, createObjectURL = ''blob:photo'',
      mediaDevices = Some (Rejected ''NotAllowedError''),
      navigator_share = Some (ShareRejected ''AbortError''),
      storage_denied = False, quota_exceeded = False,
      JSON_stringify = (\<lambda>v. ''settings''),
      JSON_parse = (\<lambda>t. if t = ''settings'' then Some example_settings else None),
      input_value = (\<lambda>t. if length t = 16 then t else [])\<rparr>"

subsection \<open>Notions the properties are stated with\<close>

text \<open>The lines of text painted, in painting order.\<close>

fun texts :: "draw_op list \<Rightarrow> string list" where
  "texts [] = []"
| "texts (FillText st t x y # ops) = t # texts ops"
| "texts (DrawImage st dx dy dw dh # ops) = texts ops"

text \<open>The matrices under which video frames were painted, in painting order.\<close>

fun frame_matrices :: "draw_op list \<Rightarrow> matrix list" where
  "frame_matrices [] = []"
| "frame_matrices (DrawImage st dx dy dw dh # ops) = transform st # frame_matrices ops"
| "frame_matrices (FillText st t x y # ops) = frame_matrices ops"

text \<open>The matrix \<^verbatim>\<open>capturePhoto\<close> builds up before it draws the frame.\<close>

definition frame_matrix :: "facing \<Rightarrow> bool \<Rightarrow> nat \<Rightarrow> nat \<Rightarrow> matrix" where
  "frame_matrix facing needsRotation canvasW vw =
     (if needsRotation then
        (if facing = User
         then \<lparr>m_a = 0, m_b = - 1, m_c = - 1, m_d = 0, m_e = int canvasW, m_f = int vw\<rparr>
         else \<lparr>m_a = 0, m_b = 1, m_c = - 1, m_d = 0, m_e = int canvasW, m_f = 0\<rparr>)
      else
        (if facing = User
         then \<lparr>m_a = - 1, m_b = 0, m_c = 0, m_d = 1, m_e = int vw, m_f = 0\<rparr>
         else identity))"

text \<open>
  The ways a camera start can fail, as \<^verbatim>\<open>startCamera\<close> tells them apart: by the absence of
  the API, or by the \<^verbatim>\<open>name\<close> of the error \<^verbatim>\<open>getUserMedia\<close> rejects with.
\<close>

datatype failure = PermissionDenied | NoDevice | UnsupportedApi | OtherFailure

definition failure_of :: "browser \<Rightarrow> failure option" where
  "failure_of b =
     (case mediaDevices b of
        None \<Rightarrow> Some UnsupportedApi
      | Some (Resolved st) \<Rightarrow> None
      | Some (Rejected name) \<Rightarrow>
          Some (if name = ''NotAllowedError'' \<or> name = ''PermissionDeniedError''
                then PermissionDenied
                else if name = ''NotFoundError'' \<or> name = ''DevicesNotFoundError''
                then NoDevice
                else OtherFailure))"

text \<open>Comparison of strings with \<^verbatim>\<open><\<close>: character by character, a proper prefix first.\<close>

fun str_less :: "string \<Rightarrow> string \<Rightarrow> bool" where
  "str_less [] [] = False"
| "str_less [] (y # ys) = True"
| "str_less (x # xs) [] = False"
| "str_less (x # xs) (y # ys) = ((of_char x :: nat) < of_char y \<or> (x = y \<and> str_less xs ys))"

text \<open>The numeral of \<open>n\<close> in exactly \<open>k\<close> decimal digits, zero-padded on the left.\<close>

fun digits :: "nat \<Rightarrow> nat \<Rightarrow> string" where
  "digits 0 n = []"
| "digits (Suc k) n = digits k (n div 10) @ [digit (n mod 10)]"

text \<open>Chronological order of two local times, to the second.\<close>

definition earlier :: "date_fields \<Rightarrow> date_fields \<Rightarrow> bool" where
  "earlier d e \<longleftrightarrow>
     getFullYear d < getFullYear e \<or> (getFullYear d = getFullYear e \<and>
     (getMonth d < getMonth e \<or> (getMonth d = getMonth e \<and>
     (getDate d < getDate e \<or> (getDate d = getDate e \<and>
     (getHours d < getHours e \<or> (getHours d = getHours e \<and>
     (getMinutes d < getMinutes e \<or> (getMinutes d = getMinutes e \<and>
      getSeconds d < getSeconds e)))))))))"

text \<open>The year has four digits.\<close>

definition four_digit_year :: "date_fields \<Rightarrow> bool" where
  "four_digit_year d \<longleftrightarrow> 1000 \<le> getFullYear d \<and> getFullYear d \<le> 9999"

text \<open>The three settings held in memory.\<close>

definition settings :: "app \<Rightarrow> bool \<times> string \<times> json" where
  "settings s = (timestampEnabled s, timestampMode s, customDateTime s)"

text \<open>The panel \<^verbatim>\<open>startCamera\<close> puts up for each kind of failure.\<close>

fun panel :: "failure \<Rightarrow> overlay" where
  "panel PermissionDenied =
     \<lparr>overlay_title = ''Camera access denied'',
      overlay_message =
        ''Please allow camera access in your browser settings, then tap below to retry.'',
      cameraRetryBtn = Some \<lparr>button_text = ''Grant Camera Access'', onclick = [StartCamera]\<rparr>\<rparr>"
| "panel NoDevice =
     \<lparr>overlay_title = ''No camera found'',
      overlay_message = ''No camera was detected on this device.'',
      cameraRetryBtn = Some \<lparr>button_text = ''Try Again'', onclick = [StartCamera]\<rparr>\<rparr>"
| "panel UnsupportedApi =
     \<lparr>overlay_title = ''Camera not available'',
      overlay_message =
        ''Your browser does not support camera access. Make sure you are using HTTPS or localhost.'',
      cameraRetryBtn = None\<rparr>"
| "panel OtherFailure =
     \<lparr>overlay_title = ''Camera error'',
      overlay_message = ''Unable to start the camera. Tap below to try again.'',
      cameraRetryBtn = Some \<lparr>button_text = ''Start Camera'', onclick = [StartCamera]\<rparr>\<rparr>"

text \<open>The record \<^verbatim>\<open>saveSettings\<close> serialises.\<close>

definition saved_data :: "app \<Rightarrow> json" where
  "saved_data s =
     JObj [(''timestampEnabled'', JBool (timestampEnabled s)),
           (''timestampMode'', JStr (timestampMode s)),
           (''customDateTime'', JStr (customTimeInput_value s))]"

section \<open>Properties\<close>

subsection \<open>Auxiliary facts about the capture\<close>

lemma draw_frame_reset:
  "draw_frame facing rot canvasW vw vh (set_height H (set_width W c)) =
     \<lparr>canvas_width = W, canvas_height = H,
      painted = [DrawImage (default_state\<lparr>transform := frame_matrix facing rot canvasW vw\<rparr>)
                  0 0 (int vw) (int vh)],
      ctx = default_state, ctx_stack = []\<rparr>"
  by (simp add: draw_frame_def set_height_def set_width_def save_def restore_def drawImage_def
      translate_def scale_def rotate_half_pi_def transform_by_def frame_matrix_def mult_def
      default_state_def identity_def)

lemma draw_timestamp_size:
  "canvas_width (draw_timestamp f t W H c) = canvas_width c"
  "canvas_height (draw_timestamp f t W H c) = canvas_height c"
  by (simp_all add: draw_timestamp_def fillText_def Let_def)

lemma texts_append: "texts (xs @ ys) = texts xs @ texts ys"
  by (induction xs rule: texts.induct) simp_all

lemma frame_matrices_append: "frame_matrices (xs @ ys) = frame_matrices xs @ frame_matrices ys"
  by (induction xs rule: frame_matrices.induct) simp_all

lemma draw_timestamp_painted:
  "texts (painted (draw_timestamp f t W H c)) = texts (painted c) @ [t]"
  "frame_matrices (painted (draw_timestamp f t W H c)) = frame_matrices (painted c)"
  by (simp_all add: draw_timestamp_def fillText_def Let_def texts_append frame_matrices_append)

lemma canvas_size_eq:
  "canvas_size b =
     (innerHeight b > innerWidth b \<and> videoWidth b > videoHeight b,
      if innerHeight b > innerWidth b \<and> videoWidth b > videoHeight b then videoHeight b
      else videoWidth b,
      if innerHeight b > innerWidth b \<and> videoWidth b > videoHeight b then videoWidth b
      else videoHeight b)"
  by (simp add: canvas_size_def Let_def)

lemma render_frame_size:
  "canvas_width (render_frame b s) =
     (if innerHeight b > innerWidth b \<and> videoWidth b > videoHeight b then videoHeight b
      else videoWidth b)"
  "canvas_height (render_frame b s) =
     (if innerHeight b > innerWidth b \<and> videoWidth b > videoHeight b then videoWidth b
      else videoHeight b)"
  by (simp_all add: render_frame_def canvas_size_eq draw_frame_reset)

lemma render_frame_painted:
  "frame_matrices (painted (render_frame b s)) =
     [frame_matrix (facingMode s)
        (innerHeight b > innerWidth b \<and> videoWidth b > videoHeight b)
        (if innerHeight b > innerWidth b \<and> videoWidth b > videoHeight b then videoHeight b
         else videoWidth b)
        (videoWidth b)]"
  "texts (painted (render_frame b s)) = []"
  by (simp_all add: render_frame_def canvas_size_eq draw_frame_reset)

lemma render_text_size:
  "canvas_width (render_text f b t c) = canvas_width c"
  "canvas_height (render_text f b t c) = canvas_height c"
  by (simp_all add: render_text_def canvas_size_eq draw_timestamp_size)

lemma render_text_painted:
  "texts (painted (render_text f b t c)) = texts (painted c) @ (if t = [] then [] else [t])"
  "frame_matrices (painted (render_text f b t c)) = frame_matrices (painted c)"
  by (simp_all add: render_text_def canvas_size_eq draw_timestamp_painted)

lemma capturePhoto_not_ready:
  "videoWidth b = 0 \<or> videoHeight b = 0 \<Longrightarrow> capturePhoto f b s = Inr s"
  by (auto simp: capturePhoto_def Let_def)

lemma capturePhoto_throws:
  assumes "videoWidth b \<noteq> 0" and "videoHeight b \<noteq> 0" and "getTimestampText f b s = Inl e"
  shows "capturePhoto f b s = Inl (e, s\<lparr>captureCanvas := render_frame b s\<rparr>)"
  using assms by (simp add: capturePhoto_def Let_def)

lemma capturePhoto_encoded:
  assumes "videoWidth b \<noteq> 0" and "videoHeight b \<noteq> 0" and "getTimestampText f b s = Inr t"
    and "encodes b"
  shows "capturePhoto f b s =
     Inr (s\<lparr>captureCanvas := render_text f b t (render_frame b s),
       capturedBlob := Some \<lparr>blob_type = ''image/jpeg'', blob_quality = 92 / 100,
         blob_width = canvas_width (render_frame b s),
         blob_height = canvas_height (render_frame b s),
         blob_painted = painted (render_text f b t (render_frame b s))\<rparr>,
       previewImg_src := createObjectURL b, previewOverlay_hidden := False\<rparr>)"
  using assms
  by (simp add: capturePhoto_def Let_def toBlob_def render_text_size render_frame_size)

lemma capturePhoto_not_encoded:
  assumes "videoWidth b \<noteq> 0" and "videoHeight b \<noteq> 0" and "getTimestampText f b s = Inr t"
    and "\<not> encodes b"
  shows "capturePhoto f b s = Inr (s\<lparr>captureCanvas := render_text f b t (render_frame b s)\<rparr>)"
  using assms by (simp add: capturePhoto_def Let_def toBlob_def)

lemma getTimestampText_cases:
  "(\<exists>e. getTimestampText f b s = Inl e) \<or> (\<exists>t. getTimestampText f b s = Inr t)"
  by (cases "getTimestampText f b s") simp_all

lemma getTimestampText_string:
  "customDateTime s = JStr t \<Longrightarrow> \<exists>text. getTimestampText f b s = Inr text"
  by (simp add: getTimestampText_def)

text \<open>
  A state in which the capture throws: custom mode, and for the custom time an object with
  a member named \<^verbatim>\<open>toString\<close>, as \<^verbatim>\<open>loadSettings\<close> takes it from the stored text
  \<^verbatim>\<open>{"timestampMode":"custom","customDateTime":{"toString":1}}\<close>.
\<close>

lemma getTimestampText_throws:
  "getTimestampText f b
     (initial_app\<lparr>timestampMode := ''custom'', customDateTime := JObj [(''toString'', JNum 1)]\<rparr>) =
   Inl TypeError"
  by (simp add: getTimestampText_def initial_app_def)

subsection \<open>Capture\<close>

text \<open>
  C1. In every capture of a ready frame the canvas takes the corrected frame dimensions,
  whatever the source file, the orientation of the page, the facing mode and the settings:
  height by width when the page is portrait and the frame is landscape, width by height
  otherwise. Every image the capture stores has these dimensions. It stores one whenever
  \<^verbatim>\<open>getTimestampText\<close> returns and the encoding succeeds; when \<^verbatim>\<open>getTimestampText\<close> throws,
  the capture throws and stores none.
\<close>

theorem exported_image_dimensions:
  assumes "videoWidth b \<noteq> 0" and "videoHeight b \<noteq> 0"
  shows "(canvas_width (captureCanvas (state_after (capturePhoto f b s))),
          canvas_height (captureCanvas (state_after (capturePhoto f b s)))) =
           (if innerHeight b > innerWidth b \<and> videoWidth b > videoHeight b
            then (videoHeight b, videoWidth b) else (videoWidth b, videoHeight b)) \<and>
         (\<forall>image. capturedBlob (state_after (capturePhoto f b s)) = Some image \<and>
              capturedBlob s \<noteq> Some image \<longrightarrow>
            (blob_width image, blob_height image) =
              (if innerHeight b > innerWidth b \<and> videoWidth b > videoHeight b
               then (videoHeight b, videoWidth b) else (videoWidth b, videoHeight b))) \<and>
         (\<forall>text. getTimestampText f b s = Inr text \<and> encodes b \<longrightarrow>
            (\<exists>s' image. capturePhoto f b s = Inr s' \<and> capturedBlob s' = Some image \<and>
               (blob_width image, blob_height image) =
                 (if innerHeight b > innerWidth b \<and> videoWidth b > videoHeight b
                  then (videoHeight b, videoWidth b) else (videoWidth b, videoHeight b)))) \<and>
         (\<forall>e. getTimestampText f b s = Inl e \<longrightarrow>
            (\<exists>s'. capturePhoto f b s = Inl (e, s') \<and> capturedBlob s' = capturedBlob s))"
proof -
  consider e where "getTimestampText f b s = Inl e"
    | t where "getTimestampText f b s = Inr t" "encodes b"
    | t where "getTimestampText f b s = Inr t" "\<not> encodes b"
    using getTimestampText_cases [of f b s] by blast
  then show ?thesis
  proof cases
    case 1
    with assms show ?thesis
      by (simp add: capturePhoto_throws state_after_def render_frame_size)
  next
    case 2
    with assms show ?thesis
      by (simp add: capturePhoto_encoded state_after_def render_frame_size render_text_size)
  next
    case 3
    with assms show ?thesis
      by (simp add: capturePhoto_not_encoded state_after_def render_frame_size render_text_size)
  qed
qed

text \<open>
  The scenario of the specification: the page is portrait and the stream is 1920 by 1080;
  the exported image is 1080 by 1920, in both source files and for both cameras. With an
  object for the custom time the capture throws and no image is stored.
\<close>

theorem exported_image_dimensions_witness:
  "videoWidth example_browser \<noteq> 0 \<and> videoHeight example_browser \<noteq> 0 \<and>
   encodes example_browser \<and>
   getTimestampText Part_000 example_browser initial_app = Inr ''02/11/2026 09:05'' \<and>
   (\<exists>s' image. capturePhoto Part_000 example_browser initial_app = Inr s' \<and>
      capturedBlob s' = Some image \<and> (blob_width image, blob_height image) = (1080, 1920)) \<and>
   getTimestampText Part_001 example_browser (initial_app\<lparr>facingMode := User\<rparr>) =
     Inr ''2026-11-02 09:05:07'' \<and>
   (\<exists>s' image. capturePhoto Part_001 example_browser (initial_app\<lparr>facingMode := User\<rparr>) =
        Inr s' \<and>
      capturedBlob s' = Some image \<and> (blob_width image, blob_height image) = (1080, 1920)) \<and>
   (\<exists>s'. capturePhoto Part_000 example_browser
        (initial_app\<lparr>timestampMode := ''custom'',
           customDateTime := JObj [(''toString'', JNum 1)]\<rparr>) = Inl (TypeError, s') \<and>
      capturedBlob s' = None \<and>
      (canvas_width (captureCanvas s'), canvas_height (captureCanvas s')) = (1080, 1920))"
proof -
  have ready: "videoWidth example_browser \<noteq> 0" "videoHeight example_browser \<noteq> 0"
    and enc: "encodes example_browser"
    and size: "innerHeight example_browser > innerWidth example_browser"
      "videoWidth example_browser = 1920" "videoHeight example_browser = 1080"
    by (simp_all add: example_browser_def)
  have text0: "getTimestampText Part_000 example_browser initial_app = Inr ''02/11/2026 09:05''"
    and text1: "getTimestampText Part_001 example_browser (initial_app\<lparr>facingMode := User\<rparr>) =
      Inr ''2026-11-02 09:05:07''"
    by code_simp+
  let ?thrower = "initial_app\<lparr>timestampMode := ''custom'',
    customDateTime := JObj [(''toString'', JNum 1)]\<rparr>"
  have blob: "capturedBlob ?thrower = None"
    by (simp add: initial_app_def)
  from exported_image_dimensions [OF ready, of Part_000 initial_app] text0 enc size
  have a: "\<exists>s' image. capturePhoto Part_000 example_browser initial_app = Inr s' \<and>
      capturedBlob s' = Some image \<and> (blob_width image, blob_height image) = (1080, 1920)"
    by simp
  from exported_image_dimensions [OF ready, of Part_001 "initial_app\<lparr>facingMode := User\<rparr>"]
    text1 enc size
  have b: "\<exists>s' image. capturePhoto Part_001 example_browser (initial_app\<lparr>facingMode := User\<rparr>) =
      Inr s' \<and> capturedBlob s' = Some image \<and> (blob_width image, blob_height image) = (1080, 1920)"
    by simp
  from exported_image_dimensions [OF ready, of Part_000 ?thrower]
    getTimestampText_throws [of Part_000 example_browser] blob size
  have c: "\<exists>s'. capturePhoto Part_000 example_browser ?thrower = Inl (TypeError, s') \<and>
      capturedBlob s' = None \<and>
      (canvas_width (captureCanvas s'), canvas_height (captureCanvas s')) = (1080, 1920)"
    by (auto simp: state_after_def)
  from ready enc text0 text1 a b c show ?thesis
    by blast
qed


text \<open>
  C5. With the timestamp disabled, \<^verbatim>\<open>getTimestampText\<close> returns the empty string whatever
  the mode and the custom time are, and a capture returns and paints no text: none on the
  canvas, and none in the image it exports.
\<close>

theorem disabled_timestamp_draws_no_text:
  assumes "\<not> timestampEnabled s"
  shows "getTimestampText f b s = Inr [] \<and>
         (videoWidth b \<noteq> 0 \<and> videoHeight b \<noteq> 0 \<longrightarrow>
            (\<exists>s'. capturePhoto f b s = Inr s' \<and>
               texts (painted (captureCanvas s')) = [] \<and>
               (encodes b \<longrightarrow>
                  (\<exists>image. capturedBlob s' = Some image \<and> texts (blob_painted image) = []))))"
proof -
  have none: "getTimestampText f b s = Inr []"
    using assms by (simp add: getTimestampText_def)
  show ?thesis
  proof (cases "encodes b")
    case True
    with none show ?thesis
      by (simp add: capturePhoto_encoded render_text_painted render_frame_painted)
  next
    case False
    with none show ?thesis
      by (simp add: capturePhoto_not_encoded render_text_painted render_frame_painted)
  qed
qed

theorem disabled_timestamp_draws_no_text_witness:
  "\<not> timestampEnabled (initial_app\<lparr>timestampEnabled := False, timestampMode := ''custom'',
        customDateTime := JStr ''2024-02-01T09:05''\<rparr>) \<and>
   getTimestampText Part_000 example_browser
     (initial_app\<lparr>timestampEnabled := False, timestampMode := ''custom'',
        customDateTime := JStr ''2024-02-01T09:05''\<rparr>) = Inr [] \<and>
   (\<exists>s' image. capturePhoto Part_000 example_browser
        (initial_app\<lparr>timestampEnabled := False, timestampMode := ''custom'',
           customDateTime := JStr ''2024-02-01T09:05''\<rparr>) = Inr s' \<and>
      capturedBlob s' = Some image \<and> texts (blob_painted image) = [])"
  using disabled_timestamp_draws_no_text [of
      "initial_app\<lparr>timestampEnabled := False, timestampMode := ''custom'',
         customDateTime := JStr ''2024-02-01T09:05''\<rparr>" Part_000 example_browser]
  by (auto simp: example_browser_def)

text \<open>
  C7. When \<^verbatim>\<open>getTimestampText\<close> returns and the encoder produces a blob, the capture
  returns with that blob stored and previewed: it is the JPEG encoding at quality 0.92 of
  the canvas the capture has just painted, with the canvas's size and content, one frame
  and the timestamp text if there is one. A frame that is not ready leaves the whole state
  as it was. An encoder that produces nothing leaves the captured image, the preview, the
  error panel and the console as they were. In both cases the capture returns. When
  \<^verbatim>\<open>getTimestampText\<close> throws, \<^verbatim>\<open>toBlob\<close> is not reached: the capture throws and stores
  nothing.
\<close>

theorem capture_is_jpeg_or_silent:
  "(videoWidth b \<noteq> 0 \<and> videoHeight b \<noteq> 0 \<and> encodes b \<and> getTimestampText f b s = Inr text \<longrightarrow>
      (\<exists>s'. capturePhoto f b s = Inr s' \<and>
         capturedBlob s' =
           Some \<lparr>blob_type = ''image/jpeg'', blob_quality = 92 / 100,
             blob_width = canvas_width (captureCanvas s'),
             blob_height = canvas_height (captureCanvas s'),
             blob_painted = painted (captureCanvas s')\<rparr> \<and>
         canvas_width (captureCanvas s') \<noteq> 0 \<and> canvas_height (captureCanvas s') \<noteq> 0 \<and>
         length (frame_matrices (painted (captureCanvas s'))) = 1 \<and>
         texts (painted (captureCanvas s')) = (if text = [] then [] else [text]) \<and>
         previewImg_src s' = createObjectURL b \<and> \<not> previewOverlay_hidden s' \<and>
         cameraOverlay s' = cameraOverlay s \<and> console s' = console s)) \<and>
   (videoWidth b = 0 \<or> videoHeight b = 0 \<longrightarrow> capturePhoto f b s = Inr s) \<and>
   (videoWidth b \<noteq> 0 \<and> videoHeight b \<noteq> 0 \<and> \<not> encodes b \<and> getTimestampText f b s = Inr text \<longrightarrow>
      (\<exists>s'. capturePhoto f b s = Inr s' \<and>
         capturedBlob s' = capturedBlob s \<and>
         previewImg_src s' = previewImg_src s \<and>
         previewOverlay_hidden s' = previewOverlay_hidden s \<and>
         cameraOverlay s' = cameraOverlay s \<and>
         console s' = console s)) \<and>
   (videoWidth b \<noteq> 0 \<and> videoHeight b \<noteq> 0 \<and> getTimestampText f b s = Inl e \<longrightarrow>
      (\<exists>s'. capturePhoto f b s = Inl (e, s') \<and>
         capturedBlob s' = capturedBlob s \<and>
         previewImg_src s' = previewImg_src s \<and>
         previewOverlay_hidden s' = previewOverlay_hidden s))"
proof -
  have encoded: "\<exists>s'. capturePhoto f b s = Inr s' \<and>
      capturedBlob s' =
        Some \<lparr>blob_type = ''image/jpeg'', blob_quality = 92 / 100,
          blob_width = canvas_width (captureCanvas s'),
          blob_height = canvas_height (captureCanvas s'),
          blob_painted = painted (captureCanvas s')\<rparr> \<and>
      canvas_width (captureCanvas s') \<noteq> 0 \<and> canvas_height (captureCanvas s') \<noteq> 0 \<and>
      length (frame_matrices (painted (captureCanvas s'))) = 1 \<and>
      texts (painted (captureCanvas s')) = (if text = [] then [] else [text]) \<and>
      previewImg_src s' = createObjectURL b \<and> \<not> previewOverlay_hidden s' \<and>
      cameraOverlay s' = cameraOverlay s \<and> console s' = console s"
    if "videoWidth b \<noteq> 0" "videoHeight b \<noteq> 0" "encodes b" "getTimestampText f b s = Inr text"
    using that
    by (simp add: capturePhoto_encoded render_text_size render_frame_size render_text_painted
        render_frame_painted)
  have silent: "\<exists>s'. capturePhoto f b s = Inr s' \<and>
      capturedBlob s' = capturedBlob s \<and> previewImg_src s' = previewImg_src s \<and>
      previewOverlay_hidden s' = previewOverlay_hidden s \<and>
      cameraOverlay s' = cameraOverlay s \<and> console s' = console s"
    if "videoWidth b \<noteq> 0" "videoHeight b \<noteq> 0" "\<not> encodes b" "getTimestampText f b s = Inr text"
    using that by (simp add: capturePhoto_not_encoded)
  have thrown: "\<exists>s'. capturePhoto f b s = Inl (e, s') \<and>
      capturedBlob s' = capturedBlob s \<and> previewImg_src s' = previewImg_src s \<and>
      previewOverlay_hidden s' = previewOverlay_hidden s"
    if "videoWidth b \<noteq> 0" "videoHeight b \<noteq> 0" "getTimestampText f b s = Inl e"
    using that by (simp add: capturePhoto_throws)
  from encoded silent thrown capturePhoto_not_ready [of b f s] show ?thesis
    by blast
qed

theorem capture_is_jpeg_or_silent_witness:
  "getTimestampText Part_000 example_browser initial_app = Inr ''02/11/2026 09:05'' \<and>
   (\<exists>s'. capturePhoto Part_000 example_browser initial_app = Inr s' \<and>
      capturedBlob s' =
        Some \<lparr>blob_type = ''image/jpeg'', blob_quality = 92 / 100,
          blob_width = canvas_width (captureCanvas s'),
          blob_height = canvas_height (captureCanvas s'),
          blob_painted = painted (captureCanvas s')\<rparr> \<and>
      texts (painted (captureCanvas s')) = [''02/11/2026 09:05''] \<and>
      previewImg_src s' = ''blob:photo'' \<and> \<not> previewOverlay_hidden s') \<and>
   capturePhoto Part_000 (example_browser\<lparr>videoHeight := 0\<rparr>) initial_app = Inr initial_app \<and>
   (\<exists>s'. capturePhoto Part_000 (example_browser\<lparr>encodes := False\<rparr>) initial_app = Inr s' \<and>
      capturedBlob s' = None \<and> previewOverlay_hidden s' \<and> cameraOverlay s' = None \<and>
      console s' = []) \<and>
   (\<exists>s'. capturePhoto Part_000 example_browser
        (initial_app\<lparr>timestampMode := ''custom'',
           customDateTime := JObj [(''toString'', JNum 1)]\<rparr>) = Inl (TypeError, s') \<and>
      capturedBlob s' = None)"
proof -
  have shape: "videoWidth example_browser \<noteq> 0" "videoHeight example_browser \<noteq> 0"
    "encodes example_browser" "createObjectURL example_browser = ''blob:photo''"
    by (simp_all add: example_browser_def)
  have stamped: "getTimestampText Part_000 example_browser initial_app = Inr ''02/11/2026 09:05''"
    by code_simp
  have stamped': "getTimestampText Part_000 (example_browser\<lparr>encodes := False\<rparr>) initial_app =
      Inr ''02/11/2026 09:05''"
    by code_simp
  have start: "capturedBlob initial_app = None" "previewOverlay_hidden initial_app"
    "cameraOverlay initial_app = None" "console initial_app = []"
    by (simp_all add: initial_app_def)
  let ?thrower = "initial_app\<lparr>timestampMode := ''custom'',
    customDateTime := JObj [(''toString'', JNum 1)]\<rparr>"
  from capture_is_jpeg_or_silent [of example_browser Part_000 initial_app
      "''02/11/2026 09:05''"] shape stamped
  have a: "\<exists>s'. capturePhoto Part_000 example_browser initial_app = Inr s' \<and>
      capturedBlob s' =
        Some \<lparr>blob_type = ''image/jpeg'', blob_quality = 92 / 100,
          blob_width = canvas_width (captureCanvas s'),
          blob_height = canvas_height (captureCanvas s'),
          blob_painted = painted (captureCanvas s')\<rparr> \<and>
      texts (painted (captureCanvas s')) = [''02/11/2026 09:05''] \<and>
      previewImg_src s' = ''blob:photo'' \<and> \<not> previewOverlay_hidden s'"
    by auto
  from capture_is_jpeg_or_silent [of "example_browser\<lparr>videoHeight := 0\<rparr>" Part_000 initial_app]
  have b: "capturePhoto Part_000 (example_browser\<lparr>videoHeight := 0\<rparr>) initial_app =
      Inr initial_app"
    by simp
  from capture_is_jpeg_or_silent [of "example_browser\<lparr>encodes := False\<rparr>" Part_000 initial_app
      "''02/11/2026 09:05''"] shape stamped' start
  have c: "\<exists>s'. capturePhoto Part_000 (example_browser\<lparr>encodes := False\<rparr>) initial_app = Inr s' \<and>
      capturedBlob s' = None \<and> previewOverlay_hidden s' \<and> cameraOverlay s' = None \<and>
      console s' = []"
    by auto
  from capture_is_jpeg_or_silent [of example_browser Part_000 ?thrower _ TypeError] shape
    getTimestampText_throws [of Part_000 example_browser]
  have d: "\<exists>s'. capturePhoto Part_000 example_browser ?thrower = Inl (TypeError, s') \<and>
      capturedBlob s' = None"
    by (auto simp: initial_app_def)
  from stamped a b c d show ?thesis
    by blast
qed

subsection \<open>Timestamp text\<close>

lemma formatDateTime_valid_nonempty: "formatDateTime f (ValidDate d) \<noteq> []"
  by (cases f) (simp_all add: Let_def)

text \<open>
  C10. With the timestamp enabled and the mode \<^verbatim>\<open>custom\<close>, an empty custom time makes
  \<^verbatim>\<open>getTimestampText\<close> format the current time, which is a non-empty text; a non-empty
  custom time is the one that is formatted, and nothing is thrown in either case.
\<close>

theorem custom_mode_falls_back_to_now:
  assumes "timestampEnabled s" and "timestampMode s = ''custom''"
  shows "(customDateTime s = JStr [] \<longrightarrow>
            getTimestampText f b s = Inr (formatDateTime f (ValidDate (Date_now b))) \<and>
            formatDateTime f (ValidDate (Date_now b)) \<noteq> []) \<and>
         (\<forall>t. customDateTime s = JStr t \<and> t \<noteq> [] \<longrightarrow>
            Date_new b (JStr t) = Inr (Date_parse b t) \<and>
            getTimestampText f b s = Inr (formatDateTime f (Date_parse b t)))"
  using assms by (simp add: getTimestampText_def formatDateTime_valid_nonempty)

theorem custom_mode_falls_back_to_now_witness:
  "timestampEnabled (initial_app\<lparr>timestampMode := ''custom''\<rparr>) \<and>
   timestampMode (initial_app\<lparr>timestampMode := ''custom''\<rparr>) = ''custom'' \<and>
   customDateTime (initial_app\<lparr>timestampMode := ''custom''\<rparr>) = JStr [] \<and>
   getTimestampText Part_001 example_browser (initial_app\<lparr>timestampMode := ''custom''\<rparr>) =
     Inr (formatDateTime Part_001 (ValidDate (Date_now example_browser))) \<and>
   formatDateTime Part_001 (ValidDate (Date_now example_browser)) \<noteq> [] \<and>
   getTimestampText Part_001 example_browser
     (initial_app\<lparr>timestampMode := ''custom'', customDateTime := JStr ''2024-02-01T09:05''\<rparr>) =
     Inr (formatDateTime Part_001 (Date_parse example_browser ''2024-02-01T09:05''))"
  using custom_mode_falls_back_to_now [of "initial_app\<lparr>timestampMode := ''custom''\<rparr>"
      Part_001 example_browser]
    custom_mode_falls_back_to_now [of
      "initial_app\<lparr>timestampMode := ''custom'', customDateTime := JStr ''2024-02-01T09:05''\<rparr>"
      Part_001 example_browser]
  by (simp add: initial_app_def)

subsection \<open>Share\<close>

text \<open>
  C9. A share that the user dismisses (\<^verbatim>\<open>AbortError\<close>) leaves the whole state as it was,
  console included. Any other rejection adds one line to the console and changes nothing
  else. In no case does sharing touch the captured image, the preview or the error panel.
\<close>

theorem share_failure_keeps_state:
  "(navigator_share b = Some (ShareRejected ''AbortError'') \<longrightarrow> sharePhoto b s = s) \<and>
   (\<forall>name. navigator_share b = Some (ShareRejected name) \<and> name \<noteq> ''AbortError'' \<and>
        capturedBlob s \<noteq> None \<longrightarrow>
      sharePhoto b s = s\<lparr>console := console s @ [(''Share error:'', name)]\<rparr>) \<and>
   capturedBlob (sharePhoto b s) = capturedBlob s \<and>
   previewImg_src (sharePhoto b s) = previewImg_src s \<and>
   previewOverlay_hidden (sharePhoto b s) = previewOverlay_hidden s \<and>
   cameraOverlay (sharePhoto b s) = cameraOverlay s"
  by (auto simp: sharePhoto_def split: option.splits share_result.splits)

theorem share_failure_keeps_state_witness:
  "navigator_share example_browser = Some (ShareRejected ''AbortError'') \<and>
   sharePhoto example_browser (state_after (capturePhoto Part_000 example_browser initial_app)) =
     state_after (capturePhoto Part_000 example_browser initial_app) \<and>
   capturedBlob (state_after (capturePhoto Part_000 example_browser initial_app)) \<noteq> None \<and>
   sharePhoto (example_browser\<lparr>navigator_share := Some (ShareRejected ''NotAllowedError'')\<rparr>)
       (state_after (capturePhoto Part_000 example_browser initial_app)) =
     (state_after (capturePhoto Part_000 example_browser initial_app))
       \<lparr>console := console (state_after (capturePhoto Part_000 example_browser initial_app)) @
          [(''Share error:'', ''NotAllowedError'')]\<rparr>"
proof -
  have stamped: "getTimestampText Part_000 example_browser initial_app =
      Inr (formatDateTime Part_000 (ValidDate (Date_now example_browser)))"
    by (simp add: getTimestampText_def initial_app_def)
  have ready: "videoWidth example_browser \<noteq> 0" "videoHeight example_browser \<noteq> 0"
    "encodes example_browser"
    "navigator_share example_browser = Some (ShareRejected ''AbortError'')"
    by (simp_all add: example_browser_def)
  have captured: "capturedBlob (state_after (capturePhoto Part_000 example_browser initial_app))
      \<noteq> None"
    by (simp add: capturePhoto_encoded [OF ready(1,2) stamped ready(3)] state_after_def)
  from ready(4) captured
    share_failure_keeps_state [of example_browser
      "state_after (capturePhoto Part_000 example_browser initial_app)"]
    share_failure_keeps_state [of
      "example_browser\<lparr>navigator_share := Some (ShareRejected ''NotAllowedError'')\<rparr>"
      "state_after (capturePhoto Part_000 example_browser initial_app)"]
  show ?thesis
    by simp
qed

subsection \<open>Camera start\<close>

lemma startCamera_panel:
  assumes "failure_of b = Some c"
  shows "cameraOverlay (startCamera f b s) = Some (panel c)"
proof (cases "mediaDevices b")
  case None
  with assms show ?thesis
    by (auto simp: failure_of_def startCamera_def Let_def showCameraOverlay_def)
next
  case (Some r)
  show ?thesis
  proof (cases r)
    case (Resolved st)
    with Some assms show ?thesis by (simp add: failure_of_def)
  next
    case (Rejected name)
    with Some assms show ?thesis
      by (auto simp: failure_of_def startCamera_def Let_def showCameraOverlay_def
          split: if_splits)
  qed
qed

lemma panel_distinct:
  assumes "c' \<noteq> c"
  shows "overlay_title (panel c') \<noteq> overlay_title (panel c)"
    and "overlay_message (panel c') \<noteq> overlay_message (panel c)"
    and "map_option button_text (cameraRetryBtn (panel c')) \<noteq>
         map_option button_text (cameraRetryBtn (panel c))"
  using assms by (cases c; cases c'; simp)+

text \<open>
  C6. Every failure to start the camera falls in one class of \<open>failure\<close>, and the panel
  shown is the one of that class. The panels of two different classes differ in title, in
  message and in button text; only the panel for a missing API has no button. When
  permission is denied the panel reads \<^verbatim>\<open>Camera access denied\<close>, its button reads
  \<^verbatim>\<open>Grant Camera Access\<close>, and a click on the button is a call of \<^verbatim>\<open>startCamera\<close>.
\<close>

theorem camera_failure_is_classified:
  assumes "\<forall>st. mediaDevices b \<noteq> Some (Resolved st)"
  shows "\<exists>c. failure_of b = Some c \<and>
           cameraOverlay (startCamera f b s) = Some (panel c) \<and>
           (\<forall>c'. c' \<noteq> c \<longrightarrow>
              overlay_title (panel c') \<noteq> overlay_title (panel c) \<and>
              overlay_message (panel c') \<noteq> overlay_message (panel c) \<and>
              map_option button_text (cameraRetryBtn (panel c')) \<noteq>
                map_option button_text (cameraRetryBtn (panel c))) \<and>
           (cameraRetryBtn (panel c) = None \<longleftrightarrow> c = UnsupportedApi) \<and>
           (c = PermissionDenied \<longrightarrow>
              overlay_title (panel c) = ''Camera access denied'' \<and>
              map_option button_text (cameraRetryBtn (panel c)) = Some ''Grant Camera Access'' \<and>
              (\<forall>b'. click_cameraRetryBtn f b' (startCamera f b s) =
                 startCamera f b' (startCamera f b s)))"
proof -
  have "\<exists>c. failure_of b = Some c"
  proof (cases "mediaDevices b")
    case None
    then show ?thesis by (simp add: failure_of_def)
  next
    case (Some r)
    with assms show ?thesis by (cases r) (simp_all add: failure_of_def)
  qed
  then obtain c where c: "failure_of b = Some c" ..
  have shown: "cameraOverlay (startCamera f b s) = Some (panel c)"
    using c by (rule startCamera_panel)
  have button: "cameraRetryBtn (panel c) = None \<longleftrightarrow> c = UnsupportedApi"
    by (cases c) simp_all
  have denied: "click_cameraRetryBtn f b' (startCamera f b s) = startCamera f b' (startCamera f b s)"
    if "c = PermissionDenied" for b'
  proof -
    from that shown have "cameraOverlay (startCamera f b s) = Some (panel PermissionDenied)"
      by simp
    then show ?thesis
      by (simp add: click_cameraRetryBtn_def)
  qed
  show ?thesis
    using c shown button denied panel_distinct [of _ c] by auto
qed

theorem camera_failure_is_classified_witness:
  "(\<forall>st. mediaDevices example_browser \<noteq> Some (Resolved st)) \<and>
   failure_of example_browser = Some PermissionDenied \<and>
   cameraOverlay (startCamera Part_000 example_browser initial_app) =
     Some \<lparr>overlay_title = ''Camera access denied'',
       overlay_message =
         ''Please allow camera access in your browser settings, then tap below to retry.'',
       cameraRetryBtn = Some \<lparr>button_text = ''Grant Camera Access'', onclick = [StartCamera]\<rparr>\<rparr> \<and>
   click_cameraRetryBtn Part_000 (example_browser\<lparr>mediaDevices := None\<rparr>)
       (startCamera Part_000 example_browser initial_app) =
     startCamera Part_000 (example_browser\<lparr>mediaDevices := None\<rparr>)
       (startCamera Part_000 example_browser initial_app)"
  using camera_failure_is_classified [of example_browser Part_000 initial_app]
  by (auto simp: example_browser_def failure_of_def)

subsection \<open>Formatting\<close>

lemma length_digits: "length (digits k n) = k"
  by (induction k arbitrary: n) simp_all

lemma of_char_digit: "n < 10 \<Longrightarrow> (of_char (digit n) :: nat) = 48 + n"
  by (simp add: digit_def)

lemma digit_inj: "n < 10 \<Longrightarrow> m < 10 \<Longrightarrow> digit n = digit m \<longleftrightarrow> n = m"
proof
  assume "n < 10" "m < 10" "digit n = digit m"
  then have "(of_char (digit n) :: nat) = of_char (digit m)" by simp
  with \<open>n < 10\<close> \<open>m < 10\<close> show "n = m" by (simp add: of_char_digit)
qed simp

lemma digits_inj:
  "n < 10 ^ k \<Longrightarrow> m < 10 ^ k \<Longrightarrow> digits k n = digits k m \<longleftrightarrow> n = m"
proof (induction k arbitrary: n m)
  case 0
  then show ?case by simp
next
  case (Suc k)
  from Suc.prems have lt: "n div 10 < 10 ^ k" "m div 10 < 10 ^ k"
    by (simp_all add: less_mult_imp_div_less mult.commute)
  have "digits (Suc k) n = digits (Suc k) m \<longleftrightarrow>
        digits k (n div 10) = digits k (m div 10) \<and> digit (n mod 10) = digit (m mod 10)"
    by (simp add: length_digits)
  also have "\<dots> \<longleftrightarrow> n div 10 = m div 10 \<and> n mod 10 = m mod 10"
    using Suc.IH [OF lt] by (simp add: digit_inj)
  also have "\<dots> \<longleftrightarrow> n = m"
    by (metis div_mult_mod_eq)
  finally show ?case .
qed

lemma str_less_append:
  "length xs = length ys \<Longrightarrow>
   str_less (xs @ us) (ys @ vs) \<longleftrightarrow> str_less xs ys \<or> (xs = ys \<and> str_less us vs)"
proof (induction xs ys rule: list_induct2)
  case Nil
  then show ?case by (cases us; cases vs) simp_all
next
  case (Cons x xs y ys)
  then show ?case by auto
qed

lemma str_less_digit:
  "n < 10 \<Longrightarrow> m < 10 \<Longrightarrow> str_less [digit n] [digit m] \<longleftrightarrow> n < m"
  by (simp add: of_char_digit)

lemma less_by_digits:
  fixes a b r s :: nat
  assumes "r < 10" and "s < 10"
  shows "a < b \<or> (a = b \<and> r < s) \<longleftrightarrow> 10 * a + r < 10 * b + s"
  using assms by arith

lemma str_less_digits:
  "n < 10 ^ k \<Longrightarrow> m < 10 ^ k \<Longrightarrow> str_less (digits k n) (digits k m) \<longleftrightarrow> n < m"
proof (induction k arbitrary: n m)
  case 0
  then show ?case by simp
next
  case (Suc k)
  from Suc.prems have lt: "n div 10 < 10 ^ k" "m div 10 < 10 ^ k"
    by (simp_all add: less_mult_imp_div_less mult.commute)
  have "str_less (digits (Suc k) n) (digits (Suc k) m) \<longleftrightarrow>
        str_less (digits k (n div 10)) (digits k (m div 10)) \<or>
        (digits k (n div 10) = digits k (m div 10) \<and>
         str_less [digit (n mod 10)] [digit (m mod 10)])"
    by (simp add: str_less_append length_digits)
  also have "\<dots> \<longleftrightarrow> n div 10 < m div 10 \<or> (n div 10 = m div 10 \<and> n mod 10 < m mod 10)"
  proof -
    have last: "str_less [digit (n mod 10)] [digit (m mod 10)] \<longleftrightarrow> n mod 10 < m mod 10"
      by (rule str_less_digit) simp_all
    show ?thesis
      unfolding Suc.IH [OF lt] digits_inj [OF lt] last ..
  qed
  also have "\<dots> \<longleftrightarrow> 10 * (n div 10) + n mod 10 < 10 * (m div 10) + m mod 10"
    by (rule less_by_digits) simp_all
  also have "\<dots> \<longleftrightarrow> n < m"
    by simp
  finally show ?case .
qed

lemma pad2_digits: "n < 100 \<Longrightarrow> padStart 2 CHR ''0'' (String_nat n) = digits 2 n"
proof -
  assume n: "n < 100"
  have zero: "CHR ''0'' = digit 0" by code_simp
  show ?thesis
  proof (cases "n < 10")
    case True
    then show ?thesis
      by (simp add: String_nat.simps [of n] padStart_def numeral_2_eq_2 zero)
  next
    case False
    with n have "n div 10 < 10" by simp
    with False show ?thesis
      by (simp add: String_nat.simps [of n] String_nat.simps [of "n div 10"] padStart_def
          numeral_2_eq_2)
  qed
qed

lemma String_nat_digits:
  "0 < k \<Longrightarrow> 10 ^ (k - 1) \<le> n \<Longrightarrow> n < 10 ^ k \<Longrightarrow> String_nat n = digits k n"
proof (induction k arbitrary: n)
  case 0
  then show ?case by simp
next
  case (Suc k)
  show ?case
  proof (cases "k = 0")
    case True
    with Suc.prems show ?thesis by (simp add: String_nat.simps [of n])
  next
    case False
    then obtain j where j: "k = Suc j" by (cases k) simp_all
    from Suc.prems have ge: "10 \<le> n"
    proof -
      have "(10::nat) ^ 1 \<le> 10 ^ (Suc k - 1)"
        using False by (intro power_increasing) simp_all
      with Suc.prems show ?thesis by simp
    qed
    from Suc.prems j have lo: "10 ^ (k - 1) \<le> n div 10"
      by (simp add: less_eq_div_iff_mult_less_eq mult.commute)
    from Suc.prems have hi: "n div 10 < 10 ^ k"
      by (simp add: less_mult_imp_div_less mult.commute)
    from False have "0 < k" by simp
    from Suc.IH [OF this lo hi] ge show ?thesis
      by (simp add: String_nat.simps [of n])
  qed
qed

lemma String_year: 
  assumes "four_digit_year d"
  shows "String_int (getFullYear d) = digits 4 (nat (getFullYear d))"
proof -
  from assms have "String_int (getFullYear d) = String_nat (nat (getFullYear d))"
    by (simp add: String_int_def four_digit_year_def)
  also have "\<dots> = digits 4 (nat (getFullYear d))"
  proof (rule String_nat_digits)
    from assms show "10 ^ (4 - 1) \<le> nat (getFullYear d)"
      unfolding four_digit_year_def by simp linarith
    from assms show "nat (getFullYear d) < 10 ^ 4"
      unfolding four_digit_year_def by simp linarith
  qed simp
  finally show ?thesis .
qed

lemma date_ok_bounds:
  assumes "date_ok d"
  shows "getDate d < 10 ^ 2" and "getMonth d + 1 < 10 ^ 2" and "getHours d < 10 ^ 2"
    and "getMinutes d < 10 ^ 2" and "getSeconds d < 10 ^ 2"
  using assms by (simp_all add: date_ok_def)

lemma year_bound: "four_digit_year d \<Longrightarrow> nat (getFullYear d) < 10 ^ 4"
  unfolding four_digit_year_def by simp linarith

lemma formatDateTime_000_digits:
  assumes "date_ok d" and "four_digit_year d"
  shows "formatDateTime Part_000 (ValidDate d) =
     digits 2 (getDate d) @ ''/'' @ digits 2 (getMonth d + 1) @ ''/'' @
     digits 4 (nat (getFullYear d)) @ '' '' @ digits 2 (getHours d) @ '':'' @
     digits 2 (getMinutes d)"
  using date_ok_bounds [OF assms(1)] assms(2)
  by (simp add: Let_def pad2_digits String_year)

lemma formatDateTime_001_digits:
  assumes "date_ok d" and "four_digit_year d"
  shows "formatDateTime Part_001 (ValidDate d) =
     digits 4 (nat (getFullYear d)) @ ''-'' @ digits 2 (getMonth d + 1) @ ''-'' @
     digits 2 (getDate d) @ '' '' @ digits 2 (getHours d) @ '':'' @
     digits 2 (getMinutes d) @ '':'' @ digits 2 (getSeconds d)"
  using date_ok_bounds [OF assms(1)] assms(2)
  by (simp add: Let_def pad2_digits String_year)

lemma formatDateTime_001_sortable:
  assumes d: "date_ok d" "four_digit_year d" and e: "date_ok e" "four_digit_year e"
  shows "str_less (formatDateTime Part_001 (ValidDate d)) (formatDateTime Part_001 (ValidDate e))
         \<longleftrightarrow> earlier d e"
proof -
  have years: "nat (getFullYear d) < nat (getFullYear e) \<longleftrightarrow> getFullYear d < getFullYear e"
    "nat (getFullYear d) = nat (getFullYear e) \<longleftrightarrow> getFullYear d = getFullYear e"
    using d(2) e(2) unfolding four_digit_year_def by linarith+
  note bounds = date_ok_bounds [OF d(1)] date_ok_bounds [OF e(1)]
    year_bound [OF d(2)] year_bound [OF e(2)]
  have positive: "0 < getFullYear d" "0 < getFullYear e"
    using d(2) e(2) unfolding four_digit_year_def by linarith+
  show ?thesis
    unfolding formatDateTime_001_digits [OF d] formatDateTime_001_digits [OF e]
    using bounds positive
    by (simp add: str_less_append length_digits str_less_digits digits_inj years earlier_def
        del: digits.simps)
qed

text \<open>
  C2, as the code has it. An invalid date gives the empty string. For a valid date whose
  year has four digits, part_000 gives the 16 characters \<^verbatim>\<open>DD/MM/YYYY HH:MM\<close> and part_001
  the 19 characters \<^verbatim>\<open>YYYY-MM-DD HH:MM:SS\<close>, every component zero-padded to its width;
  the strings of part_001 compare as the local times they denote do.
\<close>

theorem formatDateTime_fixed_width:
  "formatDateTime f InvalidDate = [] \<and>
   (date_ok d \<and> four_digit_year d \<longrightarrow>
      formatDateTime Part_000 (ValidDate d) =
        digits 2 (getDate d) @ ''/'' @ digits 2 (getMonth d + 1) @ ''/'' @
        digits 4 (nat (getFullYear d)) @ '' '' @ digits 2 (getHours d) @ '':'' @
        digits 2 (getMinutes d) \<and>
      length (formatDateTime Part_000 (ValidDate d)) = 16 \<and>
      formatDateTime Part_001 (ValidDate d) =
        digits 4 (nat (getFullYear d)) @ ''-'' @ digits 2 (getMonth d + 1) @ ''-'' @
        digits 2 (getDate d) @ '' '' @ digits 2 (getHours d) @ '':'' @
        digits 2 (getMinutes d) @ '':'' @ digits 2 (getSeconds d) \<and>
      length (formatDateTime Part_001 (ValidDate d)) = 19) \<and>
   (date_ok d \<and> four_digit_year d \<and> date_ok e \<and> four_digit_year e \<longrightarrow>
      (str_less (formatDateTime Part_001 (ValidDate d)) (formatDateTime Part_001 (ValidDate e))
       \<longleftrightarrow> earlier d e))"
proof -
  have width: "length (formatDateTime Part_000 (ValidDate d)) = 16"
    "length (formatDateTime Part_001 (ValidDate d)) = 19"
    if "date_ok d" "four_digit_year d"
    unfolding formatDateTime_000_digits [OF that] formatDateTime_001_digits [OF that]
    by (simp_all add: length_digits del: digits.simps)
  have invalid: "formatDateTime f InvalidDate = []"
    by simp
  have order: "str_less (formatDateTime Part_001 (ValidDate d))
      (formatDateTime Part_001 (ValidDate e)) \<longleftrightarrow> earlier d e"
    if "date_ok d \<and> four_digit_year d \<and> date_ok e \<and> four_digit_year e"
    using that by (intro formatDateTime_001_sortable) simp_all
  from invalid width order formatDateTime_000_digits [of d] formatDateTime_001_digits [of d]
  show ?thesis
    by blast
qed

theorem formatDateTime_fixed_width_witness:
  "date_ok (Date_now example_browser) \<and> four_digit_year (Date_now example_browser) \<and>
   formatDateTime Part_001 InvalidDate = [] \<and>
   formatDateTime Part_000 (ValidDate (Date_now example_browser)) = ''02/11/2026 09:05'' \<and>
   length (formatDateTime Part_000 (ValidDate (Date_now example_browser))) = 16 \<and>
   formatDateTime Part_001 (ValidDate (Date_now example_browser)) = ''2026-11-02 09:05:07'' \<and>
   length (formatDateTime Part_001 (ValidDate (Date_now example_browser))) = 19 \<and>
   earlier \<lparr>getFullYear = 2024, getMonth = 1, getDate = 1, getHours = 9, getMinutes = 5,
       getSeconds = 0\<rparr> (Date_now example_browser) \<and>
   str_less
     (formatDateTime Part_001 (ValidDate \<lparr>getFullYear = 2024, getMonth = 1, getDate = 1,
        getHours = 9, getMinutes = 5, getSeconds = 0\<rparr>))
     (formatDateTime Part_001 (ValidDate (Date_now example_browser)))"
proof -
  let ?then = "\<lparr>getFullYear = 2024, getMonth = 1, getDate = 1, getHours = 9, getMinutes = 5,
    getSeconds = 0\<rparr>"
  have ok: "date_ok (Date_now example_browser) \<and> four_digit_year (Date_now example_browser)"
    "date_ok ?then \<and> four_digit_year ?then"
    by (simp_all add: example_browser_def date_ok_def four_digit_year_def)
  have before: "earlier ?then (Date_now example_browser)"
    by (simp add: example_browser_def earlier_def)
  have shown: "formatDateTime Part_000 (ValidDate (Date_now example_browser)) = ''02/11/2026 09:05''"
    "formatDateTime Part_001 (ValidDate (Date_now example_browser)) = ''2026-11-02 09:05:07''"
    by code_simp+
  from formatDateTime_fixed_width [of Part_001 "Date_now example_browser" ?then] ok
  have width: "formatDateTime Part_001 InvalidDate = []"
    "length (formatDateTime Part_000 (ValidDate (Date_now example_browser))) = 16"
    "length (formatDateTime Part_001 (ValidDate (Date_now example_browser))) = 19"
    by blast+
  from formatDateTime_fixed_width [of Part_001 ?then "Date_now example_browser"] ok before
  have "str_less (formatDateTime Part_001 (ValidDate ?then))
     (formatDateTime Part_001 (ValidDate (Date_now example_browser)))"
    by blast
  with ok before shown width show ?thesis
    by blast
qed

text \<open>
  C2 as stated fails. In part_000 the day comes first, so 2 January 2024 is formatted
  after 1 February 2024 in string order. In both files the year is not padded, so the
  year 999 gives a shorter string than the year 1000, and a later one in string order.
\<close>

theorem formatDateTime_not_sortable:
  "date_ok \<lparr>getFullYear = 2024, getMonth = 0, getDate = 2, getHours = 0, getMinutes = 0,
      getSeconds = 0\<rparr> \<and>
   date_ok \<lparr>getFullYear = 2024, getMonth = 1, getDate = 1, getHours = 0, getMinutes = 0,
      getSeconds = 0\<rparr> \<and>
   earlier
     \<lparr>getFullYear = 2024, getMonth = 0, getDate = 2, getHours = 0, getMinutes = 0,
        getSeconds = 0\<rparr>
     \<lparr>getFullYear = 2024, getMonth = 1, getDate = 1, getHours = 0, getMinutes = 0,
        getSeconds = 0\<rparr> \<and>
   formatDateTime Part_000 (ValidDate \<lparr>getFullYear = 2024, getMonth = 0, getDate = 2,
      getHours = 0, getMinutes = 0, getSeconds = 0\<rparr>) = ''02/01/2024 00:00'' \<and>
   formatDateTime Part_000 (ValidDate \<lparr>getFullYear = 2024, getMonth = 1, getDate = 1,
      getHours = 0, getMinutes = 0, getSeconds = 0\<rparr>) = ''01/02/2024 00:00'' \<and>
   str_less ''01/02/2024 00:00'' ''02/01/2024 00:00'' \<and>
   date_ok \<lparr>getFullYear = 999, getMonth = 11, getDate = 31, getHours = 23, getMinutes = 59,
      getSeconds = 59\<rparr> \<and>
   date_ok \<lparr>getFullYear = 1000, getMonth = 0, getDate = 1, getHours = 0, getMinutes = 0,
      getSeconds = 0\<rparr> \<and>
   earlier
     \<lparr>getFullYear = 999, getMonth = 11, getDate = 31, getHours = 23, getMinutes = 59,
        getSeconds = 59\<rparr>
     \<lparr>getFullYear = 1000, getMonth = 0, getDate = 1, getHours = 0, getMinutes = 0,
        getSeconds = 0\<rparr> \<and>
   formatDateTime Part_001 (ValidDate \<lparr>getFullYear = 999, getMonth = 11, getDate = 31,
      getHours = 23, getMinutes = 59, getSeconds = 59\<rparr>) = ''999-12-31 23:59:59'' \<and>
   formatDateTime Part_001 (ValidDate \<lparr>getFullYear = 1000, getMonth = 0, getDate = 1,
      getHours = 0, getMinutes = 0, getSeconds = 0\<rparr>) = ''1000-01-01 00:00:00'' \<and>
   length ''999-12-31 23:59:59'' \<noteq> length ''1000-01-01 00:00:00'' \<and>
   str_less ''1000-01-01 00:00:00'' ''999-12-31 23:59:59''"
  by code_simp

subsection \<open>Persisted settings\<close>

lemma saveSettings_stored:
  assumes "\<not> storage_denied b" and "\<not> quota_exceeded b"
  shows "saveSettings b s =
     s\<lparr>localStorage := (localStorage s)(''tsCamera_settings'' \<mapsto> JSON_stringify b (saved_data s))\<rparr>"
  using assms
  by (simp add: saveSettings_def saveSettings_try_def setItem_def catch_ignore_def saved_data_def)

lemma saveSettings_failed:
  assumes "storage_denied b \<or> quota_exceeded b"
  shows "saveSettings b s = s"
  using assms
  by (auto simp: saveSettings_def saveSettings_try_def setItem_def catch_ignore_def)

lemma loadSettings_saved:
  assumes "localStorage t ''tsCamera_settings'' = Some raw" and "raw \<noteq> []"
    and "\<not> storage_denied b" and "JSON_parse b raw = Some (saved_data s)"
    and "timestampMode s = ''current'' \<or> timestampMode s = ''custom''"
  shows "timestampEnabled (loadSettings b t) = timestampEnabled s"
    and "timestampMode (loadSettings b t) = timestampMode s"
    and "customDateTime (loadSettings b t) =
           (if customTimeInput_value s = [] then customDateTime t
            else JStr (customTimeInput_value s))"
  using assms
  by (auto simp: loadSettings_def loadSettings_try_def getItem_def catch_ignore_def
      saved_data_def Let_def load_timestampEnabled_def load_timestampMode_def
      load_customDateTime_def)

lemma settings_startCamera: "settings (startCamera f b s) = settings s"
  by (simp add: settings_def startCamera_def Let_def showCameraOverlay_def
      hideCameraOverlay_def checkTorchSupport_def
      split: option.splits getUserMedia_result.splits)

lemma startCamera_keeps:
  "customTimeInput_value (startCamera f b s) = customTimeInput_value s"
  "localStorage (startCamera f b s) = localStorage s"
  by (simp_all add: startCamera_def Let_def showCameraOverlay_def
      hideCameraOverlay_def checkTorchSupport_def
      split: option.splits getUserMedia_result.splits)

text \<open>
  \<^verbatim>\<open>loadSettings\<close> lets through a custom time that is an object: the assignment to the
  variable is made before the assignment to the picker throws, and the exception is
  swallowed. With the stored text
  \<^verbatim>\<open>{"timestampMode":"custom","customDateTime":{"toString":1}}\<close> the application is then in
  custom mode with a custom time from which no date can be made.
\<close>

lemma loadSettings_lets_object_through:
  \<open>timestampEnabled
     (loadSettings
        (example_browser\<lparr>JSON_parse := \<lambda>t.
           if t = ''{"timestampMode":"custom","customDateTime":{"toString":1}}''
           then Some (JObj [(''timestampMode'', JStr ''custom''),
                            (''customDateTime'', JObj [(''toString'', JNum 1)])])
           else None\<rparr>)
        (initial_app\<lparr>localStorage := [''tsCamera_settings'' \<mapsto>
           ''{"timestampMode":"custom","customDateTime":{"toString":1}}'']\<rparr>)) \<and>
   timestampMode
     (loadSettings
        (example_browser\<lparr>JSON_parse := \<lambda>t.
           if t = ''{"timestampMode":"custom","customDateTime":{"toString":1}}''
           then Some (JObj [(''timestampMode'', JStr ''custom''),
                            (''customDateTime'', JObj [(''toString'', JNum 1)])])
           else None\<rparr>)
        (initial_app\<lparr>localStorage := [''tsCamera_settings'' \<mapsto>
           ''{"timestampMode":"custom","customDateTime":{"toString":1}}'']\<rparr>)) = ''custom'' \<and>
   customDateTime
     (loadSettings
        (example_browser\<lparr>JSON_parse := \<lambda>t.
           if t = ''{"timestampMode":"custom","customDateTime":{"toString":1}}''
           then Some (JObj [(''timestampMode'', JStr ''custom''),
                            (''customDateTime'', JObj [(''toString'', JNum 1)])])
           else None\<rparr>)
        (initial_app\<lparr>localStorage := [''tsCamera_settings'' \<mapsto>
           ''{"timestampMode":"custom","customDateTime":{"toString":1}}'']\<rparr>)) =
     JObj [(''toString'', JNum 1)] \<and>
   getTimestampText f b
     (loadSettings
        (example_browser\<lparr>JSON_parse := \<lambda>t.
           if t = ''{"timestampMode":"custom","customDateTime":{"toString":1}}''
           then Some (JObj [(''timestampMode'', JStr ''custom''),
                            (''customDateTime'', JObj [(''toString'', JNum 1)])])
           else None\<rparr>)
        (initial_app\<lparr>localStorage := [''tsCamera_settings'' \<mapsto>
           ''{"timestampMode":"custom","customDateTime":{"toString":1}}'']\<rparr>)) = Inl TypeError\<close>
proof -
  let ?loaded = \<open>loadSettings
        (example_browser\<lparr>JSON_parse := \<lambda>t.
           if t = ''{"timestampMode":"custom","customDateTime":{"toString":1}}''
           then Some (JObj [(''timestampMode'', JStr ''custom''),
                            (''customDateTime'', JObj [(''toString'', JNum 1)])])
           else None\<rparr>)
        (initial_app\<lparr>localStorage := [''tsCamera_settings'' \<mapsto>
           ''{"timestampMode":"custom","customDateTime":{"toString":1}}'']\<rparr>)\<close>
  have loaded: "timestampEnabled ?loaded" "timestampMode ?loaded = ''custom''"
    "customDateTime ?loaded = JObj [(''toString'', JNum 1)]"
    by (simp_all add: loadSettings_def loadSettings_try_def getItem_def catch_ignore_def
        load_timestampEnabled_def load_timestampMode_def load_customDateTime_def
        initial_app_def example_browser_def)
  have "getTimestampText f b ?loaded = Inl TypeError"
    by (simp add: getTimestampText_def loaded)
  with loaded show ?thesis
    by blast
qed

text \<open>
  C4 fails on the code. \<^verbatim>\<open>saveSettings\<close> stores the value of the picker where it stores
  the variables for the two other settings. After a first run the variable
  \<^verbatim>\<open>customDateTime\<close> is empty while the picker shows the time of the start. The user
  switches the timestamp off, which saves the settings: enabled false, mode current,
  custom time empty. The JSON text parses back to the record that was serialised.
  Loading, in the same page or in a page started afresh over the same storage, then gives
  the time of the first start for the custom time, not the empty string.
\<close>

theorem settings_round_trip_fails:
  "settings (init Part_000 example_browser initial_app) = (True, ''current'', JStr []) \<and>
   customTimeInput_value (init Part_000 example_browser initial_app) = ''2026-11-02T09:05'' \<and>
   settings (timestampToggle_change example_browser False
      (init Part_000 example_browser initial_app)) = (False, ''current'', JStr []) \<and>
   saved_data (timestampToggle_change example_browser False
      (init Part_000 example_browser initial_app)) = example_settings \<and>
   localStorage (timestampToggle_change example_browser False
      (init Part_000 example_browser initial_app)) ''tsCamera_settings'' =
     Some (JSON_stringify example_browser example_settings) \<and>
   JSON_parse example_browser (JSON_stringify example_browser example_settings) =
     Some example_settings \<and>
   settings (loadSettings example_browser
      (timestampToggle_change example_browser False
         (init Part_000 example_browser initial_app))) =
     (False, ''current'', JStr ''2026-11-02T09:05'') \<and>
   settings (init Part_000 example_browser
      (initial_app\<lparr>localStorage := localStorage
         (timestampToggle_change example_browser False
            (init Part_000 example_browser initial_app))\<rparr>)) =
     (False, ''current'', JStr ''2026-11-02T09:05'')"
proof -
  let ?first = "init Part_000 example_browser initial_app"
  let ?off = "?first\<lparr>timestampToggle_checked := False, timestampEnabled := False\<rparr>"
  let ?saved = "timestampToggle_change example_browser False ?first"
  have picker: "toLocalISOString (Date_now example_browser) = ''2026-11-02T09:05''"
    by code_simp
  have loaded: "loadSettings example_browser
      (initial_app\<lparr>customTimeInput_value := ''2026-11-02T09:05''\<rparr>) =
      initial_app\<lparr>customTimeInput_value := ''2026-11-02T09:05''\<rparr>"
    by (simp add: loadSettings_def loadSettings_try_def getItem_def catch_ignore_def
        initial_app_def example_browser_def)
  have started: "?first = startCamera Part_000 example_browser
      (initial_app\<lparr>customTimeInput_value := ''2026-11-02T09:05''\<rparr>)"
    by (simp add: init_def Let_def picker loaded)
  have "settings ?first = settings (initial_app\<lparr>customTimeInput_value := ''2026-11-02T09:05''\<rparr>)"
    unfolding started by (rule settings_startCamera)
  then have first: "settings ?first = (True, ''current'', JStr [])"
    "timestampMode ?first = ''current''" "customDateTime ?first = JStr []"
    by (simp_all add: settings_def initial_app_def)
  have first': "customTimeInput_value ?first = ''2026-11-02T09:05''"
    "localStorage ?first = Map.empty"
    unfolding started by (simp_all add: startCamera_keeps) (simp add: initial_app_def)
  have b: "\<not> storage_denied example_browser" "\<not> quota_exceeded example_browser"
    "JSON_stringify example_browser example_settings = ''settings''"
    "JSON_parse example_browser ''settings'' = Some example_settings"
    by (simp_all add: example_browser_def)
  have off: "saved_data ?off = example_settings"
    using first first' by (simp add: saved_data_def example_settings_def)
  have saved: "?saved = ?off\<lparr>localStorage := (localStorage ?off)(''tsCamera_settings'' \<mapsto> ''settings'')\<rparr>"
    using b off by (simp add: timestampToggle_change_def Let_def saveSettings_stored)
  have saved_settings: "settings ?saved = (False, ''current'', JStr [])"
    "customDateTime ?saved = JStr []"
    using first by (simp_all add: saved settings_def)
  have saved_data: "saved_data ?saved = example_settings"
    using off by (simp add: saved saved_data_def)
  have stored: "localStorage ?saved ''tsCamera_settings'' = Some ''settings''"
    by (simp add: saved)
  have parsed: "JSON_parse example_browser ''settings'' = Some (saved_data ?off)"
    using b off by simp
  have mode: "timestampMode ?off = ''current'' \<or> timestampMode ?off = ''custom''"
    using first by simp
  have same: "settings (loadSettings example_browser ?saved) =
      (False, ''current'', JStr ''2026-11-02T09:05'')"
    using loadSettings_saved [OF stored _ b(1) parsed mode] first first'
    by (simp add: settings_def)
  let ?fresh = "initial_app\<lparr>localStorage := localStorage ?saved,
    customTimeInput_value := toLocalISOString (Date_now example_browser)\<rparr>"
  have fresh: "localStorage ?fresh ''tsCamera_settings'' = Some ''settings''"
    using stored by simp
  have "settings (loadSettings example_browser ?fresh) =
      (False, ''current'', JStr ''2026-11-02T09:05'')"
    using loadSettings_saved [OF fresh _ b(1) parsed mode] first first'
    by (simp add: settings_def)
  then have again: "settings (init Part_000 example_browser
      (initial_app\<lparr>localStorage := localStorage ?saved\<rparr>)) =
      (False, ''current'', JStr ''2026-11-02T09:05'')"
    by (simp add: init_def Let_def settings_startCamera)
  from first(1) first'(1) saved_settings(1) saved_data stored b(3,4) same again show ?thesis
    by simp
qed

text \<open>
  What does hold of the pair: when the variable \<^verbatim>\<open>customDateTime\<close> is the string the picker
  shows, the mode is one of the two modes, storage accepts the write and allows the read,
  and the JSON text is not empty and parses back to what was serialised, then loading
  reproduces the three settings, in the same page and in a page started afresh over the
  same storage.
\<close>

lemma settings_round_trip_when_picker_agrees:
  assumes "timestampMode s = ''current'' \<or> timestampMode s = ''custom''"
    and "customDateTime s = JStr (customTimeInput_value s)"
    and "\<not> storage_denied b" and "\<not> quota_exceeded b" and "\<not> storage_denied b'"
    and "JSON_stringify b (saved_data s) \<noteq> []"
    and "JSON_parse b' (JSON_stringify b (saved_data s)) = Some (saved_data s)"
  shows "settings (loadSettings b' (saveSettings b s)) = settings s \<and>
         settings (init f b' (initial_app\<lparr>localStorage := localStorage (saveSettings b s)\<rparr>))
           = settings s"
proof -
  let ?raw = "JSON_stringify b (saved_data s)"
  have stored: "localStorage (saveSettings b s) ''tsCamera_settings'' = Some ?raw"
    using assms(3,4) by (simp add: saveSettings_stored)
  have same: "settings (loadSettings b' (saveSettings b s)) = settings s"
  proof -
    have "customDateTime (saveSettings b s) = customDateTime s"
      using assms(3,4) by (simp add: saveSettings_stored)
    then show ?thesis
      using loadSettings_saved [OF stored assms(6) assms(5) assms(7) assms(1)] assms(2)
      by (simp add: settings_def)
  qed
  let ?fresh = "initial_app\<lparr>localStorage := localStorage (saveSettings b s),
    customTimeInput_value := toLocalISOString (Date_now b')\<rparr>"
  have fresh: "localStorage ?fresh ''tsCamera_settings'' = Some ?raw"
    using stored by simp
  have "customDateTime ?fresh = JStr []"
    by (simp add: initial_app_def)
  then have "settings (loadSettings b' ?fresh) = settings s"
    using loadSettings_saved [OF fresh assms(6) assms(5) assms(7) assms(1)] assms(2)
    by (simp add: settings_def)
  then have "settings (init f b' (initial_app\<lparr>localStorage := localStorage (saveSettings b s)\<rparr>))
      = settings s"
    by (simp add: init_def Let_def settings_startCamera)
  with same show ?thesis ..
qed

text \<open>
  C8 fails on the code. With the stored text \<^verbatim>\<open>{"customDateTime":5}\<close>, which parses to an
  object whose member is a number, \<^verbatim>\<open>loadSettings\<close> puts the number into the variable
  \<^verbatim>\<open>customDateTime\<close> instead of leaving the default, the empty string; the fields
  \<^verbatim>\<open>timestampEnabled\<close> and \<^verbatim>\<open>timestampMode\<close>, which are checked by type and by value, keep
  their defaults. In custom mode the timestamp is then the date made from that number.
\<close>

theorem loadSettings_takes_number_as_custom_time:
  \<open>customDateTime initial_app = JStr [] \<and>
   customDateTime
     (loadSettings
        (example_browser\<lparr>JSON_parse := \<lambda>t. if t = ''{"customDateTime":5}''
           then Some (JObj [(''customDateTime'', JNum 5)]) else None\<rparr>)
        (initial_app\<lparr>localStorage := [''tsCamera_settings'' \<mapsto> ''{"customDateTime":5}'']\<rparr>)) =
     JNum 5 \<and>
   getTimestampText Part_000 example_browser
     ((loadSettings
        (example_browser\<lparr>JSON_parse := \<lambda>t. if t = ''{"customDateTime":5}''
           then Some (JObj [(''customDateTime'', JNum 5)]) else None\<rparr>)
        (initial_app\<lparr>localStorage := [''tsCamera_settings'' \<mapsto> ''{"customDateTime":5}'']\<rparr>))
      \<lparr>timestampMode := ''custom''\<rparr>) =
     Inr (formatDateTime Part_000 (Date_of_number example_browser 5)) \<and>
   formatDateTime Part_000 (Date_of_number example_browser 5) = ''01/01/1970 00:00''\<close>
proof -
  let ?loaded = \<open>loadSettings
        (example_browser\<lparr>JSON_parse := \<lambda>t. if t = ''{"customDateTime":5}''
           then Some (JObj [(''customDateTime'', JNum 5)]) else None\<rparr>)
        (initial_app\<lparr>localStorage := [''tsCamera_settings'' \<mapsto> ''{"customDateTime":5}'']\<rparr>)\<close>
  have loaded: "customDateTime ?loaded = JNum 5" "timestampEnabled ?loaded"
    by (simp_all add: loadSettings_def loadSettings_try_def getItem_def catch_ignore_def
        load_timestampEnabled_def load_timestampMode_def load_customDateTime_def
        initial_app_def example_browser_def)
  have stamped: "getTimestampText Part_000 example_browser (?loaded\<lparr>timestampMode := ''custom''\<rparr>) =
      Inr (formatDateTime Part_000 (Date_of_number example_browser 5))"
    by (simp add: getTimestampText_def loaded)
  have shown: "formatDateTime Part_000 (Date_of_number example_browser 5) = ''01/01/1970 00:00''"
    by code_simp
  have "customDateTime initial_app = JStr []"
    by (simp add: initial_app_def)
  with loaded(1) stamped shown show ?thesis
    by blast
qed

text \<open>
  What does hold of the two functions. An exception in the \<^verbatim>\<open>try\<close> block of
  \<^verbatim>\<open>saveSettings\<close> is thrown before anything has been assigned, and is swallowed.
  \<^verbatim>\<open>loadSettings\<close> either leaves the state as it is or makes its three checked
  assignments from the members of the parsed record, going on from wherever the last of
  them throws; it changes \<^verbatim>\<open>timestampEnabled\<close> only to a stored boolean and
  \<^verbatim>\<open>timestampMode\<close> only to a stored \<^verbatim>\<open>current\<close> or \<^verbatim>\<open>custom\<close>.
\<close>

lemma saveSettings_swallows:
  "saveSettings_try b s = Inl (e, s') \<Longrightarrow> s' = s \<and> saveSettings b s = s"
  by (auto simp: saveSettings_def saveSettings_try_def catch_ignore_def Let_def
      split: sum.splits)

lemma getProp_cases:
  "(data = JNull \<and> getProp data name = Inl TypeError) \<or> (\<exists>v. getProp data name = Inr v)"
  by (cases data) simp_all

lemma loadSettings_cases:
  "loadSettings b s = s \<or>
   (\<exists>raw data enabled mode custom.
      localStorage s ''tsCamera_settings'' = Some raw \<and> JSON_parse b raw = Some data \<and>
      getProp data ''timestampEnabled'' = Inr enabled \<and>
      getProp data ''timestampMode'' = Inr mode \<and>
      getProp data ''customDateTime'' = Inr custom \<and>
      loadSettings b s =
        catch_ignore (load_customDateTime b custom
          (load_timestampMode mode (load_timestampEnabled enabled s))))"
proof (cases "storage_denied b")
  case True
  then show ?thesis
    by (simp add: loadSettings_def loadSettings_try_def getItem_def catch_ignore_def)
next
  case allowed: False
  show ?thesis
  proof (cases "localStorage s ''tsCamera_settings''")
    case None
    with allowed show ?thesis
      by (simp add: loadSettings_def loadSettings_try_def getItem_def catch_ignore_def)
  next
    case (Some raw)
    show ?thesis
    proof (cases "raw = [] \<or> JSON_parse b raw = None \<or> JSON_parse b raw = Some JNull")
      case True
      then have "loadSettings b s = s"
        using allowed Some
        by (elim disjE)
          (simp_all add: loadSettings_def loadSettings_try_def getItem_def catch_ignore_def)
      then show ?thesis ..
    next
      case False
      then obtain data where data: "raw \<noteq> []" "JSON_parse b raw = Some data" "data \<noteq> JNull"
        by auto
      from data(3) getProp_cases [of data "''timestampEnabled''"]
      obtain enabled where enabled: "getProp data ''timestampEnabled'' = Inr enabled"
        by auto
      from data(3) getProp_cases [of data "''timestampMode''"]
      obtain mode where mode: "getProp data ''timestampMode'' = Inr mode"
        by auto
      from data(3) getProp_cases [of data "''customDateTime''"]
      obtain custom where custom: "getProp data ''customDateTime'' = Inr custom"
        by auto
      note members = enabled mode custom
      with allowed Some data have "loadSettings b s =
          catch_ignore (load_customDateTime b custom
            (load_timestampMode mode (load_timestampEnabled enabled s)))"
        by (simp add: loadSettings_def loadSettings_try_def getItem_def Let_def)
      with Some data members show ?thesis
        by blast
    qed
  qed
qed

lemma load_fields:
  "timestampEnabled (catch_ignore (load_customDateTime b custom s)) = timestampEnabled s"
  "timestampMode (catch_ignore (load_customDateTime b custom s)) = timestampMode s"
  "timestampEnabled (load_timestampMode mode s) = timestampEnabled s"
  "timestampMode (load_timestampEnabled enabled s) = timestampMode s"
  by (simp_all add: load_customDateTime_def load_timestampMode_def load_timestampEnabled_def
      catch_ignore_def Let_def split: option.splits json.splits sum.splits)

lemma loadSettings_checks_enabled:
  assumes "timestampEnabled (loadSettings b s) \<noteq> timestampEnabled s"
  shows "\<exists>raw data. localStorage s ''tsCamera_settings'' = Some raw \<and>
           JSON_parse b raw = Some data \<and>
           getProp data ''timestampEnabled'' =
             Inr (Some (JBool (timestampEnabled (loadSettings b s))))"
proof -
  from assms have "loadSettings b s \<noteq> s"
    by auto
  with loadSettings_cases [of b s] obtain raw data enabled mode custom where
    found: "localStorage s ''tsCamera_settings'' = Some raw" "JSON_parse b raw = Some data"
      "getProp data ''timestampEnabled'' = Inr enabled"
    and loaded: "loadSettings b s =
      catch_ignore (load_customDateTime b custom
        (load_timestampMode mode (load_timestampEnabled enabled s)))"
    by blast
  from assms have "timestampEnabled (load_timestampEnabled enabled s) \<noteq> timestampEnabled s"
    by (simp add: loaded load_fields)
  then have "enabled = Some (JBool (timestampEnabled (load_timestampEnabled enabled s)))"
    by (auto simp: load_timestampEnabled_def split: option.splits json.splits)
  then have "enabled = Some (JBool (timestampEnabled (loadSettings b s)))"
    by (simp add: loaded load_fields)
  with found show ?thesis
    by auto
qed

lemma loadSettings_checks_mode:
  assumes "timestampMode (loadSettings b s) \<noteq> timestampMode s"
  shows "(timestampMode (loadSettings b s) = ''current'' \<or>
          timestampMode (loadSettings b s) = ''custom'') \<and>
         (\<exists>raw data. localStorage s ''tsCamera_settings'' = Some raw \<and>
            JSON_parse b raw = Some data \<and>
            getProp data ''timestampMode'' = Inr (Some (JStr (timestampMode (loadSettings b s)))))"
proof -
  from assms have "loadSettings b s \<noteq> s"
    by auto
  with loadSettings_cases [of b s] obtain raw data enabled mode custom where
    found: "localStorage s ''tsCamera_settings'' = Some raw" "JSON_parse b raw = Some data"
      "getProp data ''timestampMode'' = Inr mode"
    and loaded: "loadSettings b s =
      catch_ignore (load_customDateTime b custom
        (load_timestampMode mode (load_timestampEnabled enabled s)))"
    by blast
  let ?s1 = "load_timestampEnabled enabled s"
  from assms have changed: "timestampMode (load_timestampMode mode ?s1) \<noteq> timestampMode ?s1"
    by (simp add: loaded load_fields)
  then have mode: "mode = Some (JStr (timestampMode (load_timestampMode mode ?s1)))"
    and "timestampMode (load_timestampMode mode ?s1) = ''current'' \<or>
         timestampMode (load_timestampMode mode ?s1) = ''custom''"
    by (auto simp: load_timestampMode_def split: if_splits)
  then have "mode = Some (JStr (timestampMode (loadSettings b s)))"
    and "timestampMode (loadSettings b s) = ''current'' \<or> timestampMode (loadSettings b s) = ''custom''"
    by (simp_all add: loaded load_fields)
  with found show ?thesis
    by auto
qed

end
